theory Spec2Isabelle
  imports Main "HOL-Library.Char_ord" "HOL-Library.List_Lexorder"
begin

section \<open>Strings and formatting primitives of the Go standard library\<close>

text \<open>
  Go strings are byte sequences; they are modelled as \<open>string\<close> (a list of characters).
  The two control characters the describer writes are named here.
\<close>

abbreviation NL :: char where "NL \<equiv> CHR 0x0A"
abbreviation TAB :: char where "TAB \<equiv> CHR 0x09"

text \<open>\<open>strings.HasSuffix\<close>, \<open>strings.TrimSuffix\<close>, \<open>strings.Contains\<close> (for a one-byte needle).\<close>

definition HasSuffix :: "string \<Rightarrow> string \<Rightarrow> bool" where
  "HasSuffix s suf = (length suf \<le> length s \<and> drop (length s - length suf) s = suf)"

definition TrimSuffix :: "string \<Rightarrow> string \<Rightarrow> string" where
  "TrimSuffix s suf = (if HasSuffix s suf then take (length s - length suf) s else s)"

definition Contains :: "string \<Rightarrow> char \<Rightarrow> bool" where
  "Contains s c = (c \<in> set s)"

text \<open>
  \<open>strings.Split(s, sep)\<close> for a one-byte separator: the pieces between the separators,
  so a string without separator is one piece and the empty string gives one empty piece.
\<close>

fun Split :: "string \<Rightarrow> char \<Rightarrow> string list" where
  "Split [] sep = [[]]"
| "Split (c # cs) sep =
     (if c = sep then [] # Split cs sep
      else (case Split cs sep of [] \<Rightarrow> [[c]] | p # ps \<Rightarrow> (c # p) # ps))"

text \<open>\<open>strings.Join(elems, sep)\<close>.\<close>

fun Join :: "string list \<Rightarrow> string \<Rightarrow> string" where
  "Join [] sep = []"
| "Join [a] sep = a"
| "Join (a # b # rest) sep = a @ sep @ Join (b # rest) sep"

text \<open>\<open>strings.TrimRight(s, cutset)\<close>: \<open>s\<close> without its trailing bytes that occur in \<open>cutset\<close>.\<close>

definition TrimRight :: "string \<Rightarrow> string \<Rightarrow> string" where
  "TrimRight s cutset = rev (dropWhile (\<lambda>c. c \<in> set cutset) (rev s))"

text \<open>
  \<open>strconv.FormatInt(i, 10)\<close>, which is also what the verb \<open>%d\<close> of \<open>fmt\<close> prints:
  the decimal digits, most significant first, after a minus sign when negative.
\<close>

definition digit_char :: "nat \<Rightarrow> char" where
  "digit_char d = ''0123456789'' ! (d mod 10)"

fun dec_nat :: "nat \<Rightarrow> string" where
  "dec_nat n = (if n < 10 then [digit_char n] else dec_nat (n div 10) @ [digit_char (n mod 10)])"

declare dec_nat.simps [simp del]

definition FormatInt :: "int \<Rightarrow> string" where
  "FormatInt i = (if i < 0 then CHR ''-'' # dec_nat (nat (- i)) else dec_nat (nat i))"

text \<open>The value of a decimal numeral, to say what "in decimal" means.\<close>

definition digit_val :: "char \<Rightarrow> nat" where
  "digit_val c = of_char c - 48"

definition is_digit :: "char \<Rightarrow> bool" where
  "is_digit c = (48 \<le> (of_char c :: nat) \<and> (of_char c :: nat) \<le> 57)"

definition dec_value :: "string \<Rightarrow> nat" where
  "dec_value s = foldl (\<lambda>acc c. 10 * acc + digit_val c) 0 s"

text \<open>The verb \<open>%v\<close> on a \<open>bool\<close>.\<close>

definition fmt_bool :: "bool \<Rightarrow> string" where
  "fmt_bool b = (if b then ''true'' else ''false'')"

section \<open>The multi-line formatter\<close>

text \<open>
  The body of the loop of \<open>multilineStringArray\<close> for one token: one trailing newline is
  cut, and a token that still holds a newline is put on continuation lines, each behind
  the indent.
\<close>

definition reflow :: "string \<Rightarrow> string \<Rightarrow> string" where
  "reflow indent s0 =
     (let s1 = (if HasSuffix s0 [NL] then TrimSuffix s0 [NL] else s0)
      in if Contains s1 NL then [NL] @ indent @ Join (Split s1 NL) ([NL] @ indent) else s1)"

text \<open>
  \<open>multilineStringArray(sep, indent, args...)\<close>. The loop stores every reflowed token
  back into \<open>args[i]\<close>; the callers pass a slice with \<open>...\<close>, which Go hands over
  unchanged, so the stores land in the caller's array. The function therefore returns the
  array as it has left it, together with the joined text. \<open>args[len(args)-1]\<close> is an index
  out of range on an empty array: the result \<open>None\<close> is that run-time panic. The value of
  \<open>strings.TrimRight\<close> is dropped by the source, and so it is here; \<open>sep\<close> is not read.
\<close>

definition multilineStringArray :: "string \<Rightarrow> string \<Rightarrow> string list \<Rightarrow> (string list \<times> string) option" where
  "multilineStringArray sep indent args =
     (let args' = map (reflow indent) args
      in if args' = [] then None
         else (let dropped = TrimRight (last args') [NL, CHR '' '']
               in Some (args', Join args' '' '')))"

section \<open>Data model\<close>

text \<open>
  The API objects, with the fields the describer and the user registry read. Go structs
  are records (field names carry a short prefix of the struct, since many structs share
  \<open>Name\<close>, \<open>Spec\<close>, \<open>Command\<close>), optional pointers are \<open>option\<close>, label maps
  are association lists, timestamps are integers (seconds), Go's \<open>int\<close> and
  \<open>int64\<close> are \<open>int\<close>: no arithmetic of the describer can overflow.
\<close>

type_synonym labels = "(string \<times> string) list"

record ObjectMeta =
  om_Name :: string
  om_Namespace :: string
  om_CreationTimestamp :: int
  om_Labels :: labels
  om_Annotations :: labels

record ObjectReference =
  ref_Kind :: string
  ref_Name :: string
  ref_Namespace :: string

record EnvVar =
  env_Name :: string
  env_Value :: string

record ExecNewPodHook =
  exec_Command :: "string list"
  exec_Env :: "EnvVar list"
  exec_ContainerName :: string

record TagImageHook =
  tag_ContainerName :: string
  tag_To :: ObjectReference

record LifecycleHook =
  hook_FailurePolicy :: string
  hook_ExecNewPod :: "ExecNewPodHook option"
  hook_TagImages :: "TagImageHook list"

record CustomDeploymentStrategyParams =
  custom_Image :: string
  custom_Environment :: "EnvVar list"
  custom_Command :: "string list"

record RecreateDeploymentStrategyParams =
  recreate_Pre :: "LifecycleHook option"
  recreate_Mid :: "LifecycleHook option"
  recreate_Post :: "LifecycleHook option"

record RollingDeploymentStrategyParams =
  rolling_Pre :: "LifecycleHook option"
  rolling_Post :: "LifecycleHook option"

record DeploymentStrategy =
  strategy_Type :: string
  strategy_CustomParams :: "CustomDeploymentStrategyParams option"
  strategy_RecreateParams :: "RecreateDeploymentStrategyParams option"
  strategy_RollingParams :: "RollingDeploymentStrategyParams option"

text \<open>
  \<open>DeploymentTriggerType\<close> is a string type with two named constants; every other
  string is \<open>OtherTriggerType\<close>.
\<close>

datatype DeploymentTriggerType =
  DeploymentTriggerOnConfigChange | DeploymentTriggerOnImageChange | OtherTriggerType string

record DeploymentTriggerImageChangeParams =
  icp_Automatic :: bool
  icp_From :: ObjectReference

record DeploymentTriggerPolicy =
  trigger_Type :: DeploymentTriggerType
  trigger_ImageChangeParams :: "DeploymentTriggerImageChangeParams option"

datatype PodTemplateSpec = PodTemplateSpec string

record DeploymentConfigSpec =
  spec_Selector :: labels
  spec_Replicas :: int
  spec_Test :: bool
  spec_Triggers :: "DeploymentTriggerPolicy list"
  spec_Strategy :: DeploymentStrategy
  spec_Template :: "PodTemplateSpec option"

record DeploymentDetails =
  details_Message :: string

record DeploymentConfigStatus =
  status_LatestVersion :: int
  status_Details :: "DeploymentDetails option"

record DeploymentConfig =
  dc_ObjectMeta :: ObjectMeta
  dc_Spec :: DeploymentConfigSpec
  dc_Status :: DeploymentConfigStatus

record ReplicationController =
  rc_ObjectMeta :: ObjectMeta
  rc_Spec_Replicas :: int
  rc_Spec_Selector :: labels
  rc_Status_Replicas :: int

datatype PodPhase = PodPending | PodRunning | PodSucceeded | PodFailed | PodUnknown

record Pod =
  pod_Status_Phase :: PodPhase

record HorizontalPodAutoscaler =
  hpa_ScaleRef_Kind :: string
  hpa_ScaleRef_Name :: string
  hpa_MinReplicas :: "int option"
  hpa_MaxReplicas :: int
  hpa_CPUUtilization_TargetPercentage :: "int option"

datatype Event = Event string

text \<open>
  Errors as values. \<open>kerrors.IsNotFound\<close> tells the not-found status error from all
  others; \<open>ForbiddenError\<close> and \<open>InvalidFieldError\<close> keep the arguments of
  \<open>kerrs.NewForbidden\<close> and \<open>field.Invalid\<close>.
\<close>

datatype api_error =
  NotFoundError string
  | ForbiddenError string string string
  | InvalidFieldError string string string
  | GenericError string

definition IsNotFound :: "api_error \<Rightarrow> bool" where
  "IsNotFound err = (case err of NotFoundError _ \<Rightarrow> True | _ \<Rightarrow> False)"

text \<open>
  Functions the describer calls that are not among the sources: the helpers of its own
  package (\<open>formatMeta\<close>, \<open>formatString\<close>, \<open>formatLabels\<close>, \<open>convertEnv\<close>,
  \<open>formatRelativeTime\<close>, \<open>tabbedString\<close>), the deployment utilities that read an
  instance's annotations (\<open>deployutil\<close>), \<open>imageapi.SplitImageStreamTag\<close>, the text of
  \<open>deployapi.Resource("DeploymentConfig").String()\<close>, and the renderers of the
  Kubernetes command line library (\<open>kctl.DescribePodTemplate\<close>, \<open>kctl.DescribeEvents\<close>),
  \<open>strings.ToLower\<close> and \<open>err.Error()\<close>. They are parameters of the model: every result
  below holds whatever they compute. \<open>formatRelativeTime\<close> reads the clock in the source;
  one value of the record fixes one reading of it.
\<close>

record helpers =
  formatMeta :: "ObjectMeta \<Rightarrow> string"
  formatString :: "string \<Rightarrow> string \<Rightarrow> string"
  formatLabels :: "labels \<Rightarrow> string"
  convertEnv :: "EnvVar list \<Rightarrow> labels"
  formatRelativeTime :: "int \<Rightarrow> string"
  ToLower :: "string \<Rightarrow> string"
  tabbedString :: "string \<Rightarrow> string"
  DescribePodTemplate :: "PodTemplateSpec option \<Rightarrow> string"
  DescribeEvents :: "Event list \<Rightarrow> string"
  SplitImageStreamTag :: "string \<Rightarrow> string \<times> string \<times> bool"
  LatestDeploymentNameForConfig :: "DeploymentConfig \<Rightarrow> string"
  DeploymentVersionFor :: "ReplicationController \<Rightarrow> int"
  DeploymentConfigNameFor :: "ReplicationController \<Rightarrow> string"
  DeploymentStatusFor :: "ReplicationController \<Rightarrow> string"
  DeploymentConfigResource :: string
  Error :: "api_error \<Rightarrow> string"

text \<open>
  The collaborators behind \<open>client.Interface\<close> and \<open>kclient.Interface\<close>: what each
  read answers. A function answers the same question the same way each time, which is
  the "identical live-status responses" of the specification.
\<close>

record clients =
  DeploymentConfigs_Get :: "string \<Rightarrow> string \<Rightarrow> api_error + DeploymentConfig"
  ReplicationControllers_Get :: "string \<Rightarrow> string \<Rightarrow> api_error + ReplicationController"
  ReplicationControllers_List :: "string \<Rightarrow> api_error + ReplicationController list"
  Events_Search :: "string \<Rightarrow> DeploymentConfig \<Rightarrow> api_error + Event list option"
  HorizontalPodAutoscalers_List :: "string \<Rightarrow> api_error + HorizontalPodAutoscaler list"
  Pods_List :: "string \<Rightarrow> labels \<Rightarrow> api_error + Pod list"

text \<open>\<open>DeploymentConfigDescriber\<close>: the clients are passed separately, \<open>config\<close> is the
  optional config the describer was built with.\<close>

record DeploymentConfigDescriber =
  config :: "DeploymentConfig option"

record DescriberSettings =
  ShowEvents :: bool

definition maxDisplayDeployments :: int where
  "maxDisplayDeployments = 3"

definition maxDisplayDeploymentsEvents :: int where
  "maxDisplayDeploymentsEvents = 8"

section \<open>The describer of a deployment config\<close>

text \<open>
  Every printing function returns the text it writes to the tab writer. A function that
  can panic returns an \<open>option\<close>, \<open>None\<close> being the panic; a function that stores into
  the config (through \<open>multilineStringArray\<close>) also returns the object as it has left it.
\<close>

text \<open>
  \<open>printHook\<close>. \<open>hook.ExecNewPod\<close> is a pointer and \<open>Command\<close> a slice, so the tokens
  \<open>multilineStringArray\<close> rewrites are the hook's own.
\<close>

definition printHook :: "helpers \<Rightarrow> string \<Rightarrow> LifecycleHook \<Rightarrow> string \<Rightarrow> (LifecycleHook \<times> string) option" where
  "printHook h prefix hook indent =
     (case (case hook_ExecNewPod hook of
              None \<Rightarrow> Some (hook, [])
            | Some e \<Rightarrow>
                (case multilineStringArray '' '' [TAB, CHR '' '', CHR '' ''] (exec_Command e) of
                   None \<Rightarrow> None
                 | Some (args', joined) \<Rightarrow>
                     Some (hook\<lparr>hook_ExecNewPod := Some (e\<lparr>exec_Command := args'\<rparr>)\<rparr>,
                           indent @ prefix @ '' hook (pod type, failure policy: '' @ hook_FailurePolicy hook @ ''):'' @ [NL]
                           @ indent @ ''  Container:'' @ [TAB] @ exec_ContainerName e @ [NL]
                           @ indent @ ''  Command:'' @ [TAB] @ joined @ [NL]
                           @ (if length (exec_Env e) > 0
                              then indent @ ''  Env:'' @ [TAB] @ formatLabels h (convertEnv h (exec_Env e)) @ [NL]
                              else [])))) of
        None \<Rightarrow> None
      | Some (hook', out) \<Rightarrow>
          Some (hook',
                out @ (if length (hook_TagImages hook) > 0
                       then indent @ prefix @ '' hook (tag images, failure policy: '' @ hook_FailurePolicy hook @ ''):'' @ [NL]
                            @ concat (map (\<lambda>image. indent @ ''  Tag:'' @ [TAB] @ ''container '' @ tag_ContainerName image
                                             @ '' to '' @ ref_Kind (tag_To image) @ '' '' @ ref_Name (tag_To image)
                                             @ '' '' @ ref_Namespace (tag_To image) @ [NL])
                                        (hook_TagImages hook))
                       else [])))"

text \<open>The pattern \<open>if pre != nil { printHook(...) }\<close>.\<close>

definition printHookIfSet :: "helpers \<Rightarrow> string \<Rightarrow> LifecycleHook option \<Rightarrow> string \<Rightarrow> (LifecycleHook option \<times> string) option" where
  "printHookIfSet h prefix hk indent =
     (case hk of
        None \<Rightarrow> Some (None, [])
      | Some hook \<Rightarrow>
          (case printHook h prefix hook indent of
             None \<Rightarrow> None
           | Some (hook', out) \<Rightarrow> Some (Some hook', out)))"

text \<open>The three blocks of \<open>printStrategy\<close>, one per strategy parameter.\<close>

definition printCustomParams :: "helpers \<Rightarrow> CustomDeploymentStrategyParams option \<Rightarrow> string \<Rightarrow> (CustomDeploymentStrategyParams option \<times> string) option" where
  "printCustomParams h cp indent =
     (case cp of
        None \<Rightarrow> Some (None, [])
      | Some c \<Rightarrow>
          (let out1 = (if length (custom_Image c) = 0
                       then indent @ ''Image:'' @ [TAB] @ ''<default>'' @ [NL]
                       else indent @ ''Image:'' @ [TAB] @ custom_Image c @ [NL]);
               out2 = (if length (custom_Environment c) > 0
                       then indent @ ''Environment:'' @ [TAB] @ formatLabels h (convertEnv h (custom_Environment c)) @ [NL]
                       else [])
           in if length (custom_Command c) > 0
              then (case multilineStringArray '' '' [TAB, CHR '' '', CHR '' ''] (custom_Command c) of
                      None \<Rightarrow> None
                    | Some (args', joined) \<Rightarrow>
                        Some (Some (c\<lparr>custom_Command := args'\<rparr>),
                              out1 @ out2 @ indent @ ''Command:'' @ [TAB] @ joined @ [NL]))
              else Some (Some c, out1 @ out2)))"

definition printRecreateParams :: "helpers \<Rightarrow> RecreateDeploymentStrategyParams option \<Rightarrow> string \<Rightarrow> (RecreateDeploymentStrategyParams option \<times> string) option" where
  "printRecreateParams h rp indent =
     (case rp of
        None \<Rightarrow> Some (None, [])
      | Some r \<Rightarrow>
          (case printHookIfSet h ''Pre-deployment'' (recreate_Pre r) indent of
             None \<Rightarrow> None
           | Some (pre', out1) \<Rightarrow>
               (case printHookIfSet h ''Mid-deployment'' (recreate_Mid r) indent of
                  None \<Rightarrow> None
                | Some (mid', out2) \<Rightarrow>
                    (case printHookIfSet h ''Post-deployment'' (recreate_Post r) indent of
                       None \<Rightarrow> None
                     | Some (post', out3) \<Rightarrow>
                         Some (Some (r\<lparr>recreate_Pre := pre', recreate_Mid := mid', recreate_Post := post'\<rparr>),
                               out1 @ out2 @ out3)))))"

definition printRollingParams :: "helpers \<Rightarrow> RollingDeploymentStrategyParams option \<Rightarrow> string \<Rightarrow> (RollingDeploymentStrategyParams option \<times> string) option" where
  "printRollingParams h rp indent =
     (case rp of
        None \<Rightarrow> Some (None, [])
      | Some r \<Rightarrow>
          (case printHookIfSet h ''Pre-deployment'' (rolling_Pre r) indent of
             None \<Rightarrow> None
           | Some (pre', out1) \<Rightarrow>
               (case printHookIfSet h ''Post-deployment'' (rolling_Post r) indent of
                  None \<Rightarrow> None
                | Some (post', out2) \<Rightarrow>
                    Some (Some (r\<lparr>rolling_Pre := pre', rolling_Post := post'\<rparr>), out1 @ out2))))"

definition printStrategy :: "helpers \<Rightarrow> DeploymentStrategy \<Rightarrow> string \<Rightarrow> (DeploymentStrategy \<times> string) option" where
  "printStrategy h strategy indent =
     (case printCustomParams h (strategy_CustomParams strategy) indent of
        None \<Rightarrow> None
      | Some (cp', out1) \<Rightarrow>
          (case printRecreateParams h (strategy_RecreateParams strategy) indent of
             None \<Rightarrow> None
           | Some (rc', out2) \<Rightarrow>
               (case printRollingParams h (strategy_RollingParams strategy) indent of
                  None \<Rightarrow> None
                | Some (ro', out3) \<Rightarrow>
                    Some (strategy\<lparr>strategy_CustomParams := cp', strategy_RecreateParams := rc',
                                    strategy_RollingParams := ro'\<rparr>,
                          out1 @ out2 @ out3))))"

text \<open>
  The loop of \<open>printTriggers\<close>, with the labels collected so far. An image change trigger
  whose \<open>ImageChangeParams\<close> is nil makes \<open>t.ImageChangeParams.From\<close> panic.
\<close>

fun triggerLabels :: "helpers \<Rightarrow> string list \<Rightarrow> DeploymentTriggerPolicy list \<Rightarrow> string list option" where
  "triggerLabels h labels [] = Some labels"
| "triggerLabels h labels (t # ts) =
     (case trigger_Type t of
        DeploymentTriggerOnConfigChange \<Rightarrow> triggerLabels h (labels @ [''Config'']) ts
      | DeploymentTriggerOnImageChange \<Rightarrow>
          (case trigger_ImageChangeParams t of
             None \<Rightarrow> None
           | Some p \<Rightarrow>
               if length (ref_Name (icp_From p)) > 0
               then (case SplitImageStreamTag h (ref_Name (icp_From p)) of
                       (name, tag, ok) \<Rightarrow>
                         triggerLabels h
                           (labels @ [''Image('' @ name @ ''@'' @ tag @ '', auto='' @ fmt_bool (icp_Automatic p) @ '')''])
                           ts)
               else triggerLabels h labels ts)
      | OtherTriggerType other \<Rightarrow> triggerLabels h labels ts)"


definition printTriggers :: "helpers \<Rightarrow> DeploymentTriggerPolicy list \<Rightarrow> string option" where
  "printTriggers h triggers =
     (if length triggers = 0 then Some (formatString h ''Triggers'' ''<none>'')
      else (case triggerLabels h [] triggers of
              None \<Rightarrow> None
            | Some labels \<Rightarrow> Some (formatString h ''Triggers'' (Join labels '', ''))))"

text \<open>
  \<open>printAutoscalingInfo\<close>; \<open>res\<close> is the text of \<open>res.String()\<close>. The second loop leaves
  at the end of its first round, so it runs for the head of \<open>scaledBy\<close> only.
  \<open>*hpa.Spec.MinReplicas\<close> panics on a nil pointer.
\<close>

definition printAutoscalingInfo :: "clients \<Rightarrow> string \<Rightarrow> string \<Rightarrow> string \<Rightarrow> string option" where
  "printAutoscalingInfo cl res namespace name =
     (case HorizontalPodAutoscalers_List cl namespace of
        Inl err \<Rightarrow> Some []
      | Inr items \<Rightarrow>
          (let scaledBy = filter (\<lambda>hpa. hpa_ScaleRef_Name hpa = name \<and> hpa_ScaleRef_Kind hpa = res) items
           in case scaledBy of
                [] \<Rightarrow> Some []
              | hpa # rest \<Rightarrow>
                  (let cpuUtil = (case hpa_CPUUtilization_TargetPercentage hpa of
                                    None \<Rightarrow> []
                                  | Some pct \<Rightarrow> '', triggered at '' @ FormatInt pct @ ''% CPU usage'')
                   in case hpa_MinReplicas hpa of
                        None \<Rightarrow> None
                      | Some minReplicas \<Rightarrow>
                          Some (''Autoscaling:'' @ [TAB] @ ''between '' @ FormatInt minReplicas @ '' and ''
                                @ FormatInt (hpa_MaxReplicas hpa) @ '' replicas'' @ cpuUtil @ [NL]))))"

definition printDeploymentConfigSpec :: "helpers \<Rightarrow> clients \<Rightarrow> DeploymentConfig \<Rightarrow> (DeploymentConfig \<times> string) option" where
  "printDeploymentConfigSpec h cl dc =
     (let spec = dc_Spec dc;
          out1 = formatString h ''Selector'' (formatLabels h (spec_Selector spec));
          test = (if spec_Test spec then '' (test, will be scaled down between deployments)'' else []);
          out2 = formatString h ''Replicas'' (FormatInt (spec_Replicas spec) @ test)
      in case printAutoscalingInfo cl (DeploymentConfigResource h) (om_Namespace (dc_ObjectMeta dc))
                (om_Name (dc_ObjectMeta dc)) of
           None \<Rightarrow> None
         | Some out3 \<Rightarrow>
             (case printTriggers h (spec_Triggers spec) of
                None \<Rightarrow> None
              | Some out4 \<Rightarrow>
                  (case printStrategy h (spec_Strategy spec) ''  '' of
                     None \<Rightarrow> None
                   | Some (strategy', out6) \<Rightarrow>
                       Some (dc\<lparr>dc_Spec := spec\<lparr>spec_Strategy := strategy'\<rparr>\<rparr>,
                             out1 @ out2 @ out3 @ out4
                             @ formatString h ''Strategy'' (strategy_Type (spec_Strategy spec)) @ out6
                             @ ''Template:'' @ [NL] @ DescribePodTemplate h (spec_Template spec)))))"

text \<open>
  The inputs on which \<open>printDeploymentConfigSpec\<close> dereferences no nil pointer and
  indexes no empty command: the first autoscaler bound to the config has
  \<open>MinReplicas\<close>, every image change trigger has its parameters, and every hook that
  runs a pod has a command.
\<close>

definition autoscalerReady :: "clients \<Rightarrow> string \<Rightarrow> string \<Rightarrow> string \<Rightarrow> bool" where
  "autoscalerReady cl res namespace name =
     (case HorizontalPodAutoscalers_List cl namespace of
        Inl err \<Rightarrow> True
      | Inr items \<Rightarrow>
          (case filter (\<lambda>hpa. hpa_ScaleRef_Name hpa = name \<and> hpa_ScaleRef_Kind hpa = res) items of
             [] \<Rightarrow> True
           | hpa # rest \<Rightarrow> hpa_MinReplicas hpa \<noteq> None))"

definition triggerReady :: "DeploymentTriggerPolicy \<Rightarrow> bool" where
  "triggerReady t =
     (trigger_Type t \<noteq> DeploymentTriggerOnImageChange \<or> trigger_ImageChangeParams t \<noteq> None)"

definition hookReady :: "LifecycleHook option \<Rightarrow> bool" where
  "hookReady hk =
     (case hk of
        None \<Rightarrow> True
      | Some hook \<Rightarrow> (case hook_ExecNewPod hook of None \<Rightarrow> True | Some e \<Rightarrow> exec_Command e \<noteq> []))"

definition strategyReady :: "DeploymentStrategy \<Rightarrow> bool" where
  "strategyReady strategy =
     ((case strategy_RecreateParams strategy of
         None \<Rightarrow> True
       | Some r \<Rightarrow> hookReady (recreate_Pre r) \<and> hookReady (recreate_Mid r) \<and> hookReady (recreate_Post r))
      \<and> (case strategy_RollingParams strategy of
            None \<Rightarrow> True
          | Some r \<Rightarrow> hookReady (rolling_Pre r) \<and> hookReady (rolling_Post r)))"

definition specReady :: "helpers \<Rightarrow> clients \<Rightarrow> DeploymentConfig \<Rightarrow> bool" where
  "specReady h cl dc =
     (autoscalerReady cl (DeploymentConfigResource h) (om_Namespace (dc_ObjectMeta dc)) (om_Name (dc_ObjectMeta dc))
      \<and> list_all triggerReady (spec_Triggers (dc_Spec dc))
      \<and> strategyReady (spec_Strategy (dc_Spec dc)))"

text \<open>\<open>getPodStatusForDeployment\<close>: the counters \<open>(running, waiting, succeeded, failed)\<close>.\<close>

definition countPhase :: "int \<times> int \<times> int \<times> int \<Rightarrow> Pod \<Rightarrow> int \<times> int \<times> int \<times> int" where
  "countPhase c pod =
     (case c of (running, waiting, succeeded, failed) \<Rightarrow>
        (case pod_Status_Phase pod of
           PodRunning \<Rightarrow> (running + 1, waiting, succeeded, failed)
         | PodPending \<Rightarrow> (running, waiting + 1, succeeded, failed)
         | PodSucceeded \<Rightarrow> (running, waiting, succeeded + 1, failed)
         | PodFailed \<Rightarrow> (running, waiting, succeeded, failed + 1)
         | PodUnknown \<Rightarrow> (running, waiting, succeeded, failed)))"

definition getPodStatusForDeployment :: "clients \<Rightarrow> ReplicationController \<Rightarrow> api_error + (int \<times> int \<times> int \<times> int)" where
  "getPodStatusForDeployment cl deployment =
     (case Pods_List cl (om_Namespace (rc_ObjectMeta deployment)) (rc_Spec_Selector deployment) of
        Inl err \<Rightarrow> Inl err
      | Inr items \<Rightarrow> Inr (foldl countPhase (0, 0, 0, 0) items))"

text \<open>\<open>printDeploymentRc\<close>: the text written and the error returned.\<close>

definition printDeploymentRc :: "helpers \<Rightarrow> clients \<Rightarrow> ReplicationController \<Rightarrow> string \<Rightarrow> bool \<Rightarrow> string \<times> api_error option" where
  "printDeploymentRc h cl deployment header verbose =
     (let out1 = (if length header > 0 then header @ '':'' @ [NL] else []);
          out2 = (if verbose then [TAB] @ ''Name:'' @ [TAB] @ om_Name (rc_ObjectMeta deployment) @ [NL] else []);
          timeAt = ToLower h (formatRelativeTime h (om_CreationTimestamp (rc_ObjectMeta deployment)));
          out3 = [TAB] @ ''Created:'' @ [TAB] @ timeAt @ '' ago'' @ [NL]
                 @ [TAB] @ ''Status:'' @ [TAB] @ DeploymentStatusFor h deployment @ [NL]
                 @ [TAB] @ ''Replicas:'' @ [TAB] @ FormatInt (rc_Status_Replicas deployment) @ '' current / ''
                 @ FormatInt (rc_Spec_Replicas deployment) @ '' desired'' @ [NL]
      in if verbose
         then (let out4 = [TAB] @ ''Selector:'' @ [TAB] @ formatLabels h (rc_Spec_Selector deployment) @ [NL]
                          @ [TAB] @ ''Labels:'' @ [TAB] @ formatLabels h (om_Labels (rc_ObjectMeta deployment)) @ [NL]
               in case getPodStatusForDeployment cl deployment of
                    Inl err \<Rightarrow> (out1 @ out2 @ out3 @ out4, Some err)
                  | Inr (running, waiting, succeeded, failed) \<Rightarrow>
                      (out1 @ out2 @ out3 @ out4
                       @ [TAB] @ ''Pods Status:'' @ [TAB] @ FormatInt running @ '' Running / '' @ FormatInt waiting
                       @ '' Waiting / '' @ FormatInt succeeded @ '' Succeeded / '' @ FormatInt failed @ '' Failed'' @ [NL],
                       None))
         else (out1 @ out2 @ out3, None))"

subsection \<open>Sorting the deployment history\<close>

text \<open>
  \<open>rcutils.OverlappingControllers\<close> is the comparator of the Kubernetes replication
  controller library (package \<open>k8s.io/kubernetes/pkg/controller/replication\<close>), which
  "sorts a list of controllers by creation timestamp, using their names as a tie
  breaker": \<open>Less(i, j)\<close> compares the names when the two timestamps are equal and the
  timestamps otherwise. Being a Kubernetes type it knows nothing of the version
  annotation, which only \<open>deployutil.DeploymentVersionFor\<close> reads. Go compares strings
  byte by byte, as the lexicographic order on \<open>string\<close> does.
\<close>

definition OverlappingControllers_Less :: "ReplicationController \<Rightarrow> ReplicationController \<Rightarrow> bool" where
  "OverlappingControllers_Less a b =
     (if om_CreationTimestamp (rc_ObjectMeta a) = om_CreationTimestamp (rc_ObjectMeta b)
      then om_Name (rc_ObjectMeta a) < om_Name (rc_ObjectMeta b)
      else om_CreationTimestamp (rc_ObjectMeta a) < om_CreationTimestamp (rc_ObjectMeta b))"

text \<open>\<open>sort.Reverse\<close>: \<open>Less(i, j)\<close> of the reversed order is \<open>Less(j, i)\<close>.\<close>

definition Reverse :: "('a \<Rightarrow> 'a \<Rightarrow> bool) \<Rightarrow> 'a \<Rightarrow> 'a \<Rightarrow> bool" where
  "Reverse lt a b = lt b a"

text \<open>
  \<open>sort.Sort\<close> puts the slice in an order in which no element is less than one before
  it. It is not stable, but where no two elements compare equal (as for the controllers of
  one namespace, whose names differ) that order is unique, and insertion sort computes it.
\<close>

fun insert_by :: "('a \<Rightarrow> 'a \<Rightarrow> bool) \<Rightarrow> 'a \<Rightarrow> 'a list \<Rightarrow> 'a list" where
  "insert_by lt x [] = [x]"
| "insert_by lt x (y # ys) = (if lt x y then x # y # ys else y # insert_by lt x ys)"

definition sort_Sort :: "('a \<Rightarrow> 'a \<Rightarrow> bool) \<Rightarrow> 'a list \<Rightarrow> 'a list" where
  "sort_Sort lt xs = foldr (insert_by lt) xs []"

subsection \<open>The sections of \<open>Describe\<close>\<close>

text \<open>
  The loop over the sorted history, with the value of \<open>counter\<close> on entry: the items for
  which the body calls \<open>printDeploymentRc\<close>, in the order of the calls. The test
  \<open>counter == maxDisplayDeployments\<close> comes after the body, in every round.
\<close>

fun historyLoop :: "helpers \<Rightarrow> string \<Rightarrow> DeploymentConfig \<Rightarrow> int \<Rightarrow> ReplicationController list \<Rightarrow> ReplicationController list" where
  "historyLoop h deploymentName dc counter [] = []"
| "historyLoop h deploymentName dc counter (item # rest) =
     (if om_Name (rc_ObjectMeta item) \<noteq> deploymentName
         \<and> om_Name (dc_ObjectMeta dc) = DeploymentConfigNameFor h item
      then item # (if counter + 1 = maxDisplayDeployments then []
                   else historyLoop h deploymentName dc (counter + 1) rest)
      else (if counter = maxDisplayDeployments then []
            else historyLoop h deploymentName dc counter rest))"

text \<open>The test of the loop body: not the latest deployment, and owned by this config.\<close>

definition belongsToHistory :: "helpers \<Rightarrow> string \<Rightarrow> DeploymentConfig \<Rightarrow> ReplicationController \<Rightarrow> bool" where
  "belongsToHistory h deploymentName dc item =
     (om_Name (rc_ObjectMeta item) \<noteq> deploymentName
      \<and> om_Name (dc_ObjectMeta dc) = DeploymentConfigNameFor h item)"

text \<open>The prior deployments the history section shows: list, sort, loop with \<open>counter := 1\<close>.\<close>

definition priorDeployments :: "helpers \<Rightarrow> clients \<Rightarrow> string \<Rightarrow> string \<Rightarrow> DeploymentConfig \<Rightarrow> ReplicationController list" where
  "priorDeployments h cl namespace deploymentName dc =
     (case ReplicationControllers_List cl namespace of
        Inl err \<Rightarrow> []
      | Inr items \<Rightarrow>
          historyLoop h deploymentName dc 1 (sort_Sort (Reverse OverlappingControllers_Less) items))"

definition historySection :: "helpers \<Rightarrow> clients \<Rightarrow> DeploymentConfigDescriber \<Rightarrow> string \<Rightarrow> string \<Rightarrow> DeploymentConfig \<Rightarrow> string" where
  "historySection h cl d namespace deploymentName dc =
     (if config d = None
      then concat (map (\<lambda>item. fst (printDeploymentRc h cl item
                                       (''Deployment #'' @ FormatInt (DeploymentVersionFor h item)) False))
                       (priorDeployments h cl namespace deploymentName dc))
      else [])"

definition versionLine :: "helpers \<Rightarrow> DeploymentConfig \<Rightarrow> string" where
  "versionLine h dc =
     (if status_LatestVersion (dc_Status dc) = 0
      then formatString h ''Latest Version'' ''Not deployed''
      else formatString h ''Latest Version'' (FormatInt (status_LatestVersion (dc_Status dc))))"

definition warningLine :: "DeploymentConfig \<Rightarrow> string" where
  "warningLine dc =
     (case status_Details (dc_Status dc) of
        None \<Rightarrow> []
      | Some details \<Rightarrow>
          if length (details_Message details) > 0
          then ''Warning:'' @ [TAB] @ details_Message details @ [NL]
          else [])"

text \<open>The latest deployment; the error \<open>printDeploymentRc\<close> returns is not read.\<close>

definition latestSection :: "helpers \<Rightarrow> clients \<Rightarrow> string \<Rightarrow> string \<Rightarrow> string" where
  "latestSection h cl namespace deploymentName =
     (case ReplicationControllers_Get cl namespace deploymentName of
        Inl err \<Rightarrow>
          if IsNotFound err then formatString h ''Latest Deployment'' ''<none>''
          else formatString h ''Latest Deployment'' (''error: '' @ Error h err)
      | Inr deployment \<Rightarrow>
          fst (printDeploymentRc h cl deployment
                 (''Deployment #'' @ FormatInt (DeploymentVersionFor h deployment) @ '' (latest)'') True))"

text \<open>
  The loop that collects the events to show, \<open>i\<close> counting down from \<open>len(events.Items)\<close>;
  \<open>None\<close> is an index out of range.
\<close>

function latestEventsLoop :: "Event list \<Rightarrow> int \<Rightarrow> Event list \<Rightarrow> Event list option" where
  "latestEventsLoop items i acc =
     (if i \<noteq> 0 \<and> i > int (length items) - maxDisplayDeploymentsEvents
      then (if 0 \<le> i - 1 \<and> i - 1 < int (length items)
            then latestEventsLoop items (i - 1) (acc @ [items ! nat (i - 1)])
            else None)
      else Some acc)"
  by pat_completeness auto
termination
  by (relation "measure (\<lambda>(items, i, acc). nat (i - (int (length items) - maxDisplayDeploymentsEvents)))") auto

declare latestEventsLoop.simps [simp del]

definition latestDeploymentEvents :: "Event list \<Rightarrow> Event list option" where
  "latestDeploymentEvents items = latestEventsLoop items (int (length items)) []"

definition eventsSection :: "helpers \<Rightarrow> clients \<Rightarrow> DescriberSettings \<Rightarrow> DeploymentConfig \<Rightarrow> string option" where
  "eventsSection h cl settings dc =
     (if ShowEvents settings
      then (case Events_Search cl (om_Namespace (dc_ObjectMeta dc)) dc of
              Inl err \<Rightarrow> Some []
            | Inr None \<Rightarrow> Some []
            | Inr (Some items) \<Rightarrow>
                (case latestDeploymentEvents items of
                   None \<Rightarrow> None
                 | Some latest \<Rightarrow> Some ([NL] @ DescribeEvents h latest)))
      else Some [])"

text \<open>
  The function \<open>Describe\<close> hands to \<open>tabbedString\<close>: the config as the run leaves it and
  the text written. The function itself returns no error.
\<close>

definition describeBody :: "helpers \<Rightarrow> clients \<Rightarrow> DeploymentConfigDescriber \<Rightarrow> string \<Rightarrow> DescriberSettings \<Rightarrow> DeploymentConfig \<Rightarrow> (DeploymentConfig \<times> string) option" where
  "describeBody h cl d namespace settings deploymentConfig =
     (case printDeploymentConfigSpec h cl deploymentConfig of
        None \<Rightarrow> None
      | Some (dc', specText) \<Rightarrow>
          (let deploymentName = LatestDeploymentNameForConfig h dc'
           in case eventsSection h cl settings dc' of
                None \<Rightarrow> None
              | Some eventsText \<Rightarrow>
                  Some (dc',
                        formatMeta h (dc_ObjectMeta deploymentConfig)
                        @ versionLine h deploymentConfig
                        @ specText @ [NL]
                        @ warningLine dc'
                        @ latestSection h cl namespace deploymentName
                        @ historySection h cl d namespace deploymentName dc'
                        @ eventsText)))"

text \<open>
  \<open>DeploymentConfigDescriber.Describe\<close>: \<open>None\<close> is a panic; otherwise the describer
  after the call (its \<open>config\<close> points to the object the run has written to) and the
  pair \<open>(string, error)\<close> the source returns.
\<close>

definition Describe :: "helpers \<Rightarrow> clients \<Rightarrow> DeploymentConfigDescriber \<Rightarrow> string \<Rightarrow> string \<Rightarrow> DescriberSettings \<Rightarrow> (DeploymentConfigDescriber \<times> string \<times> api_error option) option" where
  "Describe h cl d namespace name settings =
     (case (case config d of
              Some c \<Rightarrow> Inr c
            | None \<Rightarrow> DeploymentConfigs_Get cl namespace name) of
        Inl err \<Rightarrow> Some (d, [], Some err)
      | Inr deploymentConfig \<Rightarrow>
          (case describeBody h cl d namespace settings deploymentConfig of
             None \<Rightarrow> None
           | Some (dc', written) \<Rightarrow>
               Some (d\<lparr>config := (case config d of None \<Rightarrow> None | Some c \<Rightarrow> Some dc')\<rparr>,
                     tabbedString h written, None)))"

section \<open>The user registry\<close>

text \<open>
  \<open>user.Info\<close> as the context carries it, the persisted \<open>User\<close>, and what \<open>REST.Get\<close>
  calls outside the sources: \<open>validation.ValidateUserName\<close>, the generic store's \<open>Get\<close>,
  and the two group names of \<open>bootstrappolicy\<close>.
\<close>

record user_Info =
  info_Name :: string
  info_Groups :: "string list"

record Context =
  ctx_User :: "user_Info option"

record User =
  user_Name :: string
  user_FullName :: string
  user_Identities :: "string list"
  user_Groups :: "string list"

record registry =
  ValidateUserName :: "string \<Rightarrow> bool \<Rightarrow> bool \<times> string"
  Store_Get :: "Context \<Rightarrow> string \<Rightarrow> api_error + User"
  UnauthenticatedGroup :: string
  AuthenticatedGroup :: string

text \<open>\<open>sets.String\<close>: \<open>NewString\<close>, \<open>Delete\<close>, and \<open>List\<close>, which returns the members sorted.\<close>

definition sets_NewString :: "string list \<Rightarrow> string set" where
  "sets_NewString items = set items"

definition sets_Delete :: "string set \<Rightarrow> string list \<Rightarrow> string set" where
  "sets_Delete s items = s - set items"

definition sets_List :: "string set \<Rightarrow> string list" where
  "sets_List s = sorted_list_of_set s"

text \<open>The \<open>api.User\<close> literal of the source: a name and groups, every other field zero.\<close>

definition virtualUser :: "string \<Rightarrow> string list \<Rightarrow> User" where
  "virtualUser name groups =
     \<lparr>user_Name = name, user_FullName = [], user_Identities = [], user_Groups = groups\<rparr>"

text \<open>
  \<open>REST.Get\<close>: the pair \<open>(runtime.Object, error)\<close> it returns, and the names it has asked
  the store for, in order.
\<close>

definition REST_Get :: "registry \<Rightarrow> Context \<Rightarrow> string \<Rightarrow> (User option \<times> api_error option) \<times> string list" where
  "REST_Get r ctx name0 =
     (if name0 = ''~''
      then (case ctx_User ctx of
              None \<Rightarrow>
                ((None, Some (ForbiddenError ''user'' ''~'' ''requests to ~ must be authenticated'')), [])
            | Some user \<Rightarrow>
                if info_Name user = []
                then ((None, Some (ForbiddenError ''user'' ''~'' ''requests to ~ must be authenticated'')), [])
                else (let name = info_Name user;
                          contextGroups = sets_Delete (sets_NewString (info_Groups user))
                                            [UnauthenticatedGroup r, AuthenticatedGroup r]
                      in if \<not> fst (ValidateUserName r name False)
                         then ((Some (virtualUser name (sets_List contextGroups)), None), [])
                         else (case Store_Get r ctx name of
                                 Inr obj \<Rightarrow> ((Some obj, None), [name])
                               | Inl err \<Rightarrow>
                                   if \<not> IsNotFound err then ((None, Some err), [name])
                                   else ((Some (virtualUser name (sets_List contextGroups)), None), [name]))))
      else (case ValidateUserName r name0 False of
              (ok, details) \<Rightarrow>
                if \<not> ok then ((None, Some (InvalidFieldError ''metadata.name'' name0 details)), [])
                else (case Store_Get r ctx name0 of
                        Inr obj \<Rightarrow> ((Some obj, None), [name0])
                      | Inl err \<Rightarrow> ((None, Some err), [name0]))))"

section \<open>Example inputs\<close>

text \<open>
  One value for each parameter record and a few objects, to run the definitions on
  concrete inputs. The example helpers have the shape of the repository's (a label, a
  colon, a tab, the value; the latest deployment named \<open>config-version\<close>; owner, version
  and phase read from annotations); no general result depends on them.
\<close>

definition annotation :: "string \<Rightarrow> ReplicationController \<Rightarrow> string" where
  "annotation key rc =
     (case map_of (om_Annotations (rc_ObjectMeta rc)) key of None \<Rightarrow> [] | Some v \<Rightarrow> v)"

definition example_helpers :: helpers where
  "example_helpers =
     \<lparr>formatMeta = (\<lambda>m. ''Name:'' @ [TAB] @ om_Name m @ [NL]),
      formatString = (\<lambda>label v. label @ '':'' @ [TAB] @ v @ [NL]),
      formatLabels = (\<lambda>ls. Join (map (\<lambda>kv. fst kv @ ''='' @ snd kv) ls) '',''),
      convertEnv = map (\<lambda>e. (env_Name e, env_Value e)),
      formatRelativeTime = (\<lambda>t. FormatInt (1000 - t) @ '' seconds''),
      ToLower = (\<lambda>s. s),
      tabbedString = (\<lambda>s. s),
      DescribePodTemplate = (\<lambda>t. []),
      DescribeEvents = (\<lambda>es. concat (map (\<lambda>e. case e of Event m \<Rightarrow> m @ [NL]) es)),
      SplitImageStreamTag =
        (\<lambda>s. (takeWhile (\<lambda>c. c \<noteq> CHR '':'') s,
              (case dropWhile (\<lambda>c. c \<noteq> CHR '':'') s of
                 [] \<Rightarrow> ''latest''
               | c # t \<Rightarrow> if t = [] then ''latest'' else t),
              CHR '':'' \<in> set s)),
      LatestDeploymentNameForConfig =
        (\<lambda>dc. om_Name (dc_ObjectMeta dc) @ ''-'' @ FormatInt (status_LatestVersion (dc_Status dc))),
      DeploymentVersionFor = (\<lambda>rc. int (dec_value (annotation ''latest-version'' rc))),
      DeploymentConfigNameFor = annotation ''config-name'',
      DeploymentStatusFor = annotation ''phase'',
      DeploymentConfigResource = ''DeploymentConfig'',
      Error = (\<lambda>err. case err of
                 NotFoundError m \<Rightarrow> m
               | ForbiddenError res n m \<Rightarrow> m
               | InvalidFieldError path v m \<Rightarrow> m
               | GenericError m \<Rightarrow> m)\<rparr>"

definition example_rc :: "string \<Rightarrow> int \<Rightarrow> string \<Rightarrow> string \<Rightarrow> ReplicationController" where
  "example_rc name created cfg version =
     \<lparr>rc_ObjectMeta =
        \<lparr>om_Name = name, om_Namespace = ''ns'', om_CreationTimestamp = created, om_Labels = [],
         om_Annotations = [(''config-name'', cfg), (''latest-version'', version), (''phase'', ''Complete'')]\<rparr>,
      rc_Spec_Replicas = 1, rc_Spec_Selector = [], rc_Status_Replicas = 1\<rparr>"

definition example_strategy :: "string list \<Rightarrow> DeploymentStrategy" where
  "example_strategy command =
     \<lparr>strategy_Type = ''Custom'',
      strategy_CustomParams = Some \<lparr>custom_Image = [], custom_Environment = [], custom_Command = command\<rparr>,
      strategy_RecreateParams = None,
      strategy_RollingParams = None\<rparr>"

definition example_dc :: "string \<Rightarrow> int \<Rightarrow> string list \<Rightarrow> DeploymentConfig" where
  "example_dc name latest command =
     \<lparr>dc_ObjectMeta =
        \<lparr>om_Name = name, om_Namespace = ''ns'', om_CreationTimestamp = 0, om_Labels = [], om_Annotations = []\<rparr>,
      dc_Spec =
        \<lparr>spec_Selector = [], spec_Replicas = 1, spec_Test = False, spec_Triggers = [],
         spec_Strategy = example_strategy command, spec_Template = None\<rparr>,
      dc_Status = \<lparr>status_LatestVersion = latest, status_Details = None\<rparr>\<rparr>"

definition example_clients :: "DeploymentConfig list \<Rightarrow> ReplicationController list \<Rightarrow> HorizontalPodAutoscaler list \<Rightarrow> Event list \<Rightarrow> clients" where
  "example_clients dcs rcs hpas events =
     \<lparr>DeploymentConfigs_Get =
        (\<lambda>namespace name. case find (\<lambda>dc. om_Name (dc_ObjectMeta dc) = name) dcs of
                             None \<Rightarrow> Inl (NotFoundError name) | Some dc \<Rightarrow> Inr dc),
      ReplicationControllers_Get =
        (\<lambda>namespace name. case find (\<lambda>rc. om_Name (rc_ObjectMeta rc) = name) rcs of
                             None \<Rightarrow> Inl (NotFoundError name) | Some rc \<Rightarrow> Inr rc),
      ReplicationControllers_List = (\<lambda>namespace. Inr rcs),
      Events_Search = (\<lambda>namespace dc. Inr (Some events)),
      HorizontalPodAutoscalers_List = (\<lambda>namespace. Inr hpas),
      Pods_List = (\<lambda>namespace selector. Inr [])\<rparr>"

text \<open>
  Three histories of the config \<open>cfg\<close>: versions 1 to 3 and 1 to 4 created ten seconds
  apart, and versions 9 to 11 of which 9 and 10 were created in the same second.
\<close>

definition history_three :: "ReplicationController list" where
  "history_three =
     [example_rc ''cfg-1'' 10 ''cfg'' ''1'', example_rc ''cfg-2'' 20 ''cfg'' ''2'',
      example_rc ''cfg-3'' 30 ''cfg'' ''3'']"

definition history_four :: "ReplicationController list" where
  "history_four =
     [example_rc ''cfg-1'' 10 ''cfg'' ''1'', example_rc ''cfg-2'' 20 ''cfg'' ''2'',
      example_rc ''cfg-3'' 30 ''cfg'' ''3'', example_rc ''cfg-4'' 40 ''cfg'' ''4'']"

definition history_same_second :: "ReplicationController list" where
  "history_same_second =
     [example_rc ''cfg-9'' 100 ''cfg'' ''9'', example_rc ''cfg-10'' 100 ''cfg'' ''10'',
      example_rc ''cfg-11'' 200 ''cfg'' ''11'']"

text \<open>
  What the example helpers make of the config \<open>cfg\<close> built by \<open>example_dc\<close> with no
  deployment to show, given the text of the version line, the lines of the strategy after
  the image and the text of the latest deployment line; and ten events, oldest first.
\<close>

definition example_output_with :: "string \<Rightarrow> string \<Rightarrow> string \<Rightarrow> string" where
  "example_output_with version strategyLines latest =
     ''Name:'' @ [TAB] @ ''cfg'' @ [NL]
     @ ''Latest Version:'' @ [TAB] @ version @ [NL]
     @ ''Selector:'' @ [TAB] @ [NL]
     @ ''Replicas:'' @ [TAB] @ ''1'' @ [NL]
     @ ''Triggers:'' @ [TAB] @ ''<none>'' @ [NL]
     @ ''Strategy:'' @ [TAB] @ ''Custom'' @ [NL]
     @ ''  Image:'' @ [TAB] @ ''<default>'' @ [NL]
     @ strategyLines
     @ ''Template:'' @ [NL]
     @ [NL]
     @ ''Latest Deployment:'' @ [TAB] @ latest @ [NL]"

definition example_output :: "string \<Rightarrow> string \<Rightarrow> string" where
  "example_output version latest = example_output_with version [] latest"


definition example_hpa :: "string \<Rightarrow> int option \<Rightarrow> int \<Rightarrow> int option \<Rightarrow> HorizontalPodAutoscaler" where
  "example_hpa name minReplicas maxReplicas cpu =
     \<lparr>hpa_ScaleRef_Kind = ''DeploymentConfig'', hpa_ScaleRef_Name = name, hpa_MinReplicas = minReplicas,
      hpa_MaxReplicas = maxReplicas, hpa_CPUUtilization_TargetPercentage = cpu\<rparr>"

text \<open>
  A command of one token with a newline inside, and the token as one and as two runs of
  \<open>multilineStringArray\<close> leave it.
\<close>

definition token_a_b :: string where
  "token_a_b = [CHR ''a'', NL, CHR ''b'']"

definition token_once :: string where
  "token_once = [NL, TAB, CHR '' '', CHR '' '', CHR ''a'', NL, TAB, CHR '' '', CHR '' '', CHR ''b'']"

definition token_twice :: string where
  "token_twice = [NL, TAB, CHR '' '', CHR '' '', NL, TAB, CHR '' '', CHR '' '', TAB, CHR '' '', CHR '' '', CHR ''a'',
                  NL, TAB, CHR '' '', CHR '' '', TAB, CHR '' '', CHR '' '', CHR ''b'']"

text \<open>A user store that holds \<open>alice\<close>, fails for \<open>down\<close> and finds nobody else.\<close>

definition example_store :: "string \<Rightarrow> api_error + User" where
  "example_store name =
     (if name = ''alice''
      then Inr \<lparr>user_Name = ''alice'', user_FullName = ''Alice'', user_Identities = [], user_Groups = []\<rparr>
      else if name = ''down'' then Inl (GenericError ''etcd unavailable'')
      else Inl (NotFoundError name))"



definition example_registry :: "(string \<Rightarrow> api_error + User) \<Rightarrow> registry" where
  "example_registry store =
     \<lparr>ValidateUserName = (\<lambda>name allowPrefix. if CHR '':'' \<in> set name
                                              then (False, ''may not contain a colon'')
                                              else (True, [])),
      Store_Get = (\<lambda>ctx name. store name),
      UnauthenticatedGroup = ''system:unauthenticated'',
      AuthenticatedGroup = ''system:authenticated''\<rparr>"

section \<open>Results about the multi-line formatter\<close>

text \<open>
  C9 (trailing whitespace is trimmed from the result of the multi-line formatter).
  The source calls \<open>strings.TrimRight\<close> on the last token and throws the value away, so
  nothing is trimmed: for the command \<open>echo\<close>, \<open>hi \<close> the joined text is \<open>echo hi \<close>
  with its trailing space, and a last token ending in two newlines leaves a trailing
  newline and indent. Tokens are joined with single spaces as the claim says.
\<close>

theorem multilineStringArray_keeps_trailing_space:
  "multilineStringArray '' '' [TAB, CHR '' '', CHR '' ''] [''echo'', ''hi '']
     = Some ([''echo'', ''hi ''], ''echo hi '')
   \<and> multilineStringArray '' '' [TAB, CHR '' '', CHR '' ''] [''echo'', [CHR ''h'', CHR ''i'', NL, NL]]
     = Some ([''echo'', [NL, TAB, CHR '' '', CHR '' '', CHR ''h'', CHR ''i'', NL, TAB, CHR '' '', CHR '' '']],
             ''echo '' @ [NL, TAB, CHR '' '', CHR '' '', CHR ''h'', CHR ''i'', NL, TAB, CHR '' '', CHR '' ''])"
  by (simp add: multilineStringArray_def reflow_def HasSuffix_def TrimSuffix_def Contains_def)

section \<open>Decimal numerals\<close>

text \<open>
  The two equations of \<open>dec_nat\<close> as conditional rules, which rewrite a numeral to
  its digits; then: the digits are decimal digits and give the number back.
\<close>

lemma dec_nat_small: "n < 10 \<Longrightarrow> dec_nat n = [digit_char n]"
  by (subst dec_nat.simps) simp

lemma dec_nat_large: "10 \<le> n \<Longrightarrow> dec_nat n = dec_nat (n div 10) @ [digit_char (n mod 10)]"
  by (subst dec_nat.simps) simp

lemma digit_char_props: "d < 10 \<Longrightarrow> digit_val (digit_char d) = d \<and> is_digit (digit_char d)"
proof -
  assume "d < 10"
  then have "d \<in> {0, 1, 2, 3, 4, 5, 6, 7, 8, 9}" by auto
  then show ?thesis by (auto simp: digit_char_def digit_val_def is_digit_def)
qed

lemma dec_value_snoc: "dec_value (s @ [c]) = 10 * dec_value s + digit_val c"
  by (simp add: dec_value_def)

lemma dec_nat_decimal: "list_all is_digit (dec_nat n) \<and> dec_value (dec_nat n) = n"
proof (induction n rule: dec_nat.induct)
  case (1 n)
  show ?case
  proof (cases "n < 10")
    case True
    then show ?thesis
      using digit_char_props [of n] by (subst (1 2) dec_nat.simps) (simp add: dec_value_def)
  next
    case False
    then show ?thesis
      using 1 digit_char_props [of "n mod 10"]
      by (subst (1 2) dec_nat.simps) (simp add: dec_value_snoc)
  qed
qed

lemma FormatInt_decimal:
  "FormatInt v = (if v < 0 then [CHR ''-''] else []) @ dec_nat (nat \<bar>v\<bar>)"
  by (simp add: FormatInt_def)

lemma NL_notin_dec_nat: "NL \<notin> set (dec_nat n)"
proof
  assume "NL \<in> set (dec_nat n)"
  moreover have "\<forall>c\<in>set (dec_nat n). is_digit c"
    using dec_nat_decimal [of n] by (simp add: list_all_iff)
  ultimately have "is_digit NL" by blast
  then show False by (simp add: is_digit_def)
qed

lemma NL_notin_FormatInt: "NL \<notin> set (FormatInt i)"
  by (simp add: FormatInt_def NL_notin_dec_nat)

section \<open>Unfolding the examples\<close>

lemmas example_defs = example_output_def example_output_with_def example_clients_def example_rc_def example_dc_def example_helpers_def
  annotation_def example_strategy_def history_three_def history_four_def history_same_second_def

lemmas history_defs = belongsToHistory_def sort_Sort_def Reverse_def OverlappingControllers_Less_def

lemmas describe_defs = Describe_def describeBody_def printDeploymentConfigSpec_def printAutoscalingInfo_def
  printTriggers_def printStrategy_def printCustomParams_def printRecreateParams_def printRollingParams_def
  versionLine_def warningLine_def latestSection_def historySection_def priorDeployments_def
  eventsSection_def IsNotFound_def FormatInt_def digit_char_def dec_nat_small dec_nat_large
  printDeploymentRc_def getPodStatusForDeployment_def multilineStringArray_def reflow_def
  HasSuffix_def TrimSuffix_def Contains_def

lemmas ready_defs = specReady_def autoscalerReady_def triggerReady_def strategyReady_def hookReady_def

section \<open>The history of prior deployments\<close>

text \<open>
  Insertion keeps a list sorted when the comparator is asymmetric and its negation
  transitive; sorting changes neither the members nor how many of them pass a test.
\<close>

lemma set_insert_by: "set (insert_by lt x ys) = insert x (set ys)"
  by (induction ys) auto

lemma sorted_insert_by:
  assumes asym: "\<And>a b. lt a b \<Longrightarrow> \<not> lt b a"
    and trans: "\<And>a b c. \<not> lt b a \<Longrightarrow> \<not> lt c b \<Longrightarrow> \<not> lt c a"
    and "sorted_wrt (\<lambda>a b. \<not> lt b a) ys"
  shows "sorted_wrt (\<lambda>a b. \<not> lt b a) (insert_by lt x ys)"
  using assms(3)
proof (induction ys)
  case Nil
  then show ?case by simp
next
  case (Cons y ys)
  show ?case
  proof (cases "lt x y")
    case True
    have "\<not> lt z x" if "z \<in> set ys" for z
      using Cons.prems that True asym trans by (metis sorted_wrt.simps(2))
    then show ?thesis using True Cons.prems asym by auto
  next
    case False
    then show ?thesis using Cons by (auto simp: set_insert_by)
  qed
qed

lemma sorted_sort_Sort:
  assumes asym: "\<And>a b. lt a b \<Longrightarrow> \<not> lt b a"
    and trans: "\<And>a b c. \<not> lt b a \<Longrightarrow> \<not> lt c b \<Longrightarrow> \<not> lt c a"
  shows "sorted_wrt (\<lambda>a b. \<not> lt b a) (sort_Sort lt xs)"
  unfolding sort_Sort_def
  by (induction xs) (auto intro: sorted_insert_by [OF asym trans])



lemma set_sort_Sort: "set (sort_Sort lt xs) = set xs"
  unfolding sort_Sort_def by (induction xs) (auto simp: set_insert_by)

lemma distinct_map_insert_by:
  "distinct (map f (insert_by lt x ys)) = (f x \<notin> f ` set ys \<and> distinct (map f ys))"
  by (induction ys) (auto simp: set_insert_by)

lemma distinct_map_sort_Sort: "distinct (map f (sort_Sort lt xs)) = distinct (map f xs)"
  unfolding sort_Sort_def
proof (induction xs)
  case Nil
  then show ?case by simp
next
  case (Cons x xs)
  have "set (foldr (insert_by lt) xs []) = set xs"
    using set_sort_Sort [of lt xs] by (simp add: sort_Sort_def)
  then show ?case using Cons by (simp add: distinct_map_insert_by)
qed

lemma OverlappingControllers_asym:
  "OverlappingControllers_Less a b \<Longrightarrow> \<not> OverlappingControllers_Less b a"
  by (auto simp: OverlappingControllers_Less_def split: if_splits)

lemma OverlappingControllers_trans:
  "\<not> OverlappingControllers_Less b a \<Longrightarrow> \<not> OverlappingControllers_Less c b
   \<Longrightarrow> \<not> OverlappingControllers_Less c a"
  by (auto simp: OverlappingControllers_Less_def split: if_splits)

lemma OverlappingControllers_total:
  "om_Name (rc_ObjectMeta a) \<noteq> om_Name (rc_ObjectMeta b) \<Longrightarrow> \<not> OverlappingControllers_Less a b
   \<Longrightarrow> OverlappingControllers_Less b a"
  by (auto simp: OverlappingControllers_Less_def split: if_splits)

lemma sorted_history:
  "sorted_wrt (\<lambda>a b. \<not> OverlappingControllers_Less a b)
     (sort_Sort (Reverse OverlappingControllers_Less) items)"
proof -
  have "sorted_wrt (\<lambda>a b. \<not> Reverse OverlappingControllers_Less b a)
          (sort_Sort (Reverse OverlappingControllers_Less) items)"
    by (rule sorted_sort_Sort)
       (auto simp: Reverse_def dest: OverlappingControllers_asym OverlappingControllers_trans)
  then show ?thesis by (simp add: Reverse_def)
qed

lemma sorted_wrt_distinct_strict:
  "sorted_wrt P xs \<Longrightarrow> distinct (map f xs) \<Longrightarrow> sorted_wrt (\<lambda>a b. P a b \<and> f a \<noteq> f b) xs"
  by (induction xs) auto

text \<open>
  The loop entered with \<open>counter\<close> below the bound shows the first
  \<open>maxDisplayDeployments - counter\<close> items that pass its test.
\<close>

lemma historyLoop_take:
  "counter < maxDisplayDeployments \<Longrightarrow>
   historyLoop h deploymentName dc counter items
     = take (nat (maxDisplayDeployments - counter))
         (filter (belongsToHistory h deploymentName dc) items)"
proof (induction items arbitrary: counter)
  case Nil
  then show ?case by simp
next
  case (Cons item rest)
  show ?case
  proof (cases "belongsToHistory h deploymentName dc item")
    case True
    then have t: "om_Name (rc_ObjectMeta item) \<noteq> deploymentName"
      "om_Name (dc_ObjectMeta dc) = DeploymentConfigNameFor h item"
      by (simp_all add: belongsToHistory_def)
    show ?thesis
    proof (cases "counter + 1 = maxDisplayDeployments")
      case c: True
      then have "nat (maxDisplayDeployments - counter) = Suc 0" by simp
      then show ?thesis using True t c by simp
    next
      case c: False
      then have lt: "counter + 1 < maxDisplayDeployments" using Cons.prems by simp
      then have "nat (maxDisplayDeployments - counter) = Suc (nat (maxDisplayDeployments - (counter + 1)))"
        by simp
      then show ?thesis using True t c Cons.IH [OF lt] by simp
    qed
  next
    case False
    then have "om_Name (rc_ObjectMeta item) = deploymentName
               \<or> om_Name (dc_ObjectMeta dc) \<noteq> DeploymentConfigNameFor h item"
      by (simp add: belongsToHistory_def)
    then show ?thesis using False Cons by auto
  qed
qed

lemma priorDeployments_take:
  "ReplicationControllers_List cl namespace = Inr items \<Longrightarrow>
   priorDeployments h cl namespace deploymentName dc
     = take 2 (filter (belongsToHistory h deploymentName dc)
                 (sort_Sort (Reverse OverlappingControllers_Less) items))"
  using historyLoop_take [of 1 h deploymentName dc]
  by (simp add: priorDeployments_def maxDisplayDeployments_def)




text \<open>
  C1 (order of the prior deployments shown). When the listed controllers have
  different names, as the controllers of one namespace do, the prior deployments shown
  are in strictly descending order of creation timestamp, and of name where two
  timestamps are equal. The comparator does not read the version.
\<close>

theorem prior_deployments_sorted_by_creation:
  assumes "ReplicationControllers_List cl namespace = Inr items"
    and "distinct (map (\<lambda>item. om_Name (rc_ObjectMeta item)) items)"
  shows "sorted_wrt
           (\<lambda>a b. om_CreationTimestamp (rc_ObjectMeta a) > om_CreationTimestamp (rc_ObjectMeta b)
                  \<or> (om_CreationTimestamp (rc_ObjectMeta a) = om_CreationTimestamp (rc_ObjectMeta b)
                      \<and> om_Name (rc_ObjectMeta a) > om_Name (rc_ObjectMeta b)))
           (priorDeployments h cl namespace deploymentName dc)"
proof -
  let ?sorted = "sort_Sort (Reverse OverlappingControllers_Less) items"
  let ?name = "\<lambda>item. om_Name (rc_ObjectMeta item)"
  have "distinct (map ?name ?sorted)"
    using assms(2) by (simp add: distinct_map_sort_Sort)
  then have "sorted_wrt (\<lambda>a b. \<not> OverlappingControllers_Less a b \<and> ?name a \<noteq> ?name b) ?sorted"
    using sorted_history [of items] by (rule sorted_wrt_distinct_strict [rotated])
  then have "sorted_wrt (\<lambda>a b. OverlappingControllers_Less b a) ?sorted"
    by (rule sorted_wrt_mono_rel [rotated]) (auto dest: OverlappingControllers_total)
  then have "sorted_wrt (\<lambda>a b. OverlappingControllers_Less b a)
               (take 2 (filter (belongsToHistory h deploymentName dc) ?sorted))"
    by (intro sorted_wrt_take sorted_wrt_filter)
  then have "sorted_wrt (\<lambda>a b. OverlappingControllers_Less b a)
               (priorDeployments h cl namespace deploymentName dc)"
    using assms(1) by (simp add: priorDeployments_take)
  then show ?thesis
    by (rule sorted_wrt_mono_rel [rotated])
       (auto simp: OverlappingControllers_Less_def split: if_splits)
qed

theorem prior_deployments_sorted_by_creation_witness:
  "ReplicationControllers_List (example_clients [] history_same_second [] []) ''ns'' = Inr history_same_second
   \<and> distinct (map (\<lambda>item. om_Name (rc_ObjectMeta item)) history_same_second)
   \<and> priorDeployments example_helpers (example_clients [] history_same_second [] []) ''ns'' ''cfg-11''
        (example_dc ''cfg'' 11 [])
      = [example_rc ''cfg-9'' 100 ''cfg'' ''9'', example_rc ''cfg-10'' 100 ''cfg'' ''10'']
   \<and> sorted_wrt
        (\<lambda>a b. om_CreationTimestamp (rc_ObjectMeta a) > om_CreationTimestamp (rc_ObjectMeta b)
               \<or> (om_CreationTimestamp (rc_ObjectMeta a) = om_CreationTimestamp (rc_ObjectMeta b)
                   \<and> om_Name (rc_ObjectMeta a) > om_Name (rc_ObjectMeta b)))
        (priorDeployments example_helpers (example_clients [] history_same_second [] []) ''ns'' ''cfg-11''
           (example_dc ''cfg'' 11 []))"
proof -
  have l: "ReplicationControllers_List (example_clients [] history_same_second [] []) ''ns''
             = Inr history_same_second"
    by (simp add: example_clients_def)
  have d: "distinct (map (\<lambda>item. om_Name (rc_ObjectMeta item)) history_same_second)"
    by (simp add: example_defs)
  have p: "priorDeployments example_helpers (example_clients [] history_same_second [] []) ''ns'' ''cfg-11''
        (example_dc ''cfg'' 11 [])
      = [example_rc ''cfg-9'' 100 ''cfg'' ''9'', example_rc ''cfg-10'' 100 ''cfg'' ''10'']"
    by (simp add: priorDeployments_def maxDisplayDeployments_def example_defs history_defs)
  show ?thesis
    using l d p prior_deployments_sorted_by_creation [OF l d, of example_helpers "''cfg-11''" "example_dc ''cfg'' 11 []"]
    by simp
qed

text \<open>
  Versions 9 and 10 created in the same second (\<open>CreationTimestamp\<close> counts
  seconds) are told apart by name, and \<open>cfg-9\<close> is greater than \<open>cfg-10\<close> byte by
  byte: version 9 is shown before version 10, which is not descending by version.
\<close>

theorem prior_deployments_not_sorted_by_version_counterexample:
  "map (DeploymentVersionFor example_helpers)
     (priorDeployments example_helpers (example_clients [] history_same_second [] []) ''ns'' ''cfg-11''
        (example_dc ''cfg'' 11 [])) = [9, 10]
   \<and> \<not> sorted_wrt (\<lambda>a b. DeploymentVersionFor example_helpers a > DeploymentVersionFor example_helpers b)
        (priorDeployments example_helpers (example_clients [] history_same_second [] []) ''ns'' ''cfg-11''
           (example_dc ''cfg'' 11 []))"
  by (simp add: priorDeployments_def maxDisplayDeployments_def example_defs history_defs
      dec_value_def digit_val_def)

section \<open>The events shown\<close>

text \<open>
  The loop started at \<open>k\<close>, at most the length of the list, appends the items from
  index \<open>k - 1\<close> down to index \<open>len - 8\<close> (or 0); it never reads out of range.
\<close>

lemma latestEventsLoop_general:
  "k \<le> length items \<Longrightarrow>
   latestEventsLoop items (int k) acc = Some (acc @ rev (drop (length items - 8) (take k items)))"
proof (induction k arbitrary: acc)
  case 0
  then show ?case by (simp add: latestEventsLoop.simps)
next
  case (Suc k)
  show ?case
  proof (cases "int (Suc k) > int (length items) - maxDisplayDeploymentsEvents")
    case True
    then have ge: "length items - 8 \<le> k" by (simp add: maxDisplayDeploymentsEvents_def)
    have "latestEventsLoop items (int (Suc k)) acc = latestEventsLoop items (int k) (acc @ [items ! k])"
      using True Suc.prems by (subst latestEventsLoop.simps) simp
    also have "\<dots> = Some ((acc @ [items ! k]) @ rev (drop (length items - 8) (take k items)))"
      using Suc.IH [of "acc @ [items ! k]"] Suc.prems by simp
    also have "(acc @ [items ! k]) @ rev (drop (length items - 8) (take k items))
                 = acc @ rev (drop (length items - 8) (take (Suc k) items))"
      using Suc.prems ge by (simp add: take_Suc_conv_app_nth)
    finally show ?thesis .
  next
    case False
    then have "Suc k \<le> length items - 8" by (simp add: maxDisplayDeploymentsEvents_def)
    then have "drop (length items - 8) (take (Suc k) items) = []" by simp
    moreover have "latestEventsLoop items (int (Suc k)) acc = Some acc"
      using False by (subst latestEventsLoop.simps) simp
    ultimately show ?thesis by simp
  qed
qed

lemma latestDeploymentEvents_eq:
  "latestDeploymentEvents items = Some (rev (drop (length items - 8) items))"
  using latestEventsLoop_general [of "length items" items "[]"]
  by (simp add: latestDeploymentEvents_def)

lemma eventsSection_total: "\<exists>eventsText. eventsSection h cl settings dc = Some eventsText"
  by (simp add: eventsSection_def latestDeploymentEvents_eq split: sum.splits option.splits)



section \<open>When the spec block is printed\<close>

text \<open>
  On the inputs described by \<open>specReady\<close> no printing function panics, so
  \<open>printDeploymentConfigSpec\<close> returns.
\<close>

lemma multilineStringArray_returns:
  "args \<noteq> [] \<Longrightarrow> \<exists>args' joined. multilineStringArray sep indent args = Some (args', joined)"
  by (simp add: multilineStringArray_def Let_def)

lemma printHookIfSet_returns:
  assumes "hookReady hk"
  shows "\<exists>hk' out. printHookIfSet h prefix hk indent = Some (hk', out)"
proof (cases hk)
  case None
  then show ?thesis by (simp add: printHookIfSet_def)
next
  case (Some hook)
  show ?thesis
  proof (cases "hook_ExecNewPod hook")
    case None
    then show ?thesis using Some by (simp add: printHookIfSet_def printHook_def)
  next
    case e: (Some e)
    then have "exec_Command e \<noteq> []" using assms Some by (simp add: hookReady_def)
    then obtain args' joined
      where "multilineStringArray '' '' [TAB, CHR '' '', CHR '' ''] (exec_Command e) = Some (args', joined)"
      using multilineStringArray_returns by blast
    then show ?thesis using Some e by (simp add: printHookIfSet_def printHook_def)
  qed
qed

lemma printCustomParams_returns: "\<exists>cp' out. printCustomParams h cp indent = Some (cp', out)"
proof (cases cp)
  case None
  then show ?thesis by (simp add: printCustomParams_def)
next
  case (Some c)
  show ?thesis
  proof (cases "custom_Command c = []")
    case True
    then show ?thesis using Some by (simp add: printCustomParams_def Let_def)
  next
    case False
    then obtain args' joined
      where "multilineStringArray '' '' [TAB, CHR '' '', CHR '' ''] (custom_Command c) = Some (args', joined)"
      using multilineStringArray_returns by blast
    then show ?thesis using Some False by (simp add: printCustomParams_def Let_def)
  qed
qed

lemma printStrategy_returns:
  assumes "strategyReady strategy"
  shows "\<exists>strategy' out. printStrategy h strategy indent = Some (strategy', out)"
proof -
  obtain cp' out1 where c: "printCustomParams h (strategy_CustomParams strategy) indent = Some (cp', out1)"
    using printCustomParams_returns by blast
  have "\<exists>rp' out2. printRecreateParams h (strategy_RecreateParams strategy) indent = Some (rp', out2)"
  proof (cases "strategy_RecreateParams strategy")
    case None
    then show ?thesis by (simp add: printRecreateParams_def)
  next
    case (Some r)
    then have "hookReady (recreate_Pre r)" "hookReady (recreate_Mid r)" "hookReady (recreate_Post r)"
      using assms by (simp_all add: strategyReady_def)
    then obtain a oa b ob c oc
      where "printHookIfSet h ''Pre-deployment'' (recreate_Pre r) indent = Some (a, oa)"
        and "printHookIfSet h ''Mid-deployment'' (recreate_Mid r) indent = Some (b, ob)"
        and "printHookIfSet h ''Post-deployment'' (recreate_Post r) indent = Some (c, oc)"
      using printHookIfSet_returns by metis
    then show ?thesis using Some by (simp add: printRecreateParams_def)
  qed
  then obtain rp' out2
    where r: "printRecreateParams h (strategy_RecreateParams strategy) indent = Some (rp', out2)"
    by blast
  have "\<exists>ro' out3. printRollingParams h (strategy_RollingParams strategy) indent = Some (ro', out3)"
  proof (cases "strategy_RollingParams strategy")
    case None
    then show ?thesis by (simp add: printRollingParams_def)
  next
    case (Some r)
    then have "hookReady (rolling_Pre r)" "hookReady (rolling_Post r)"
      using assms by (simp_all add: strategyReady_def)
    then obtain a oa b ob
      where "printHookIfSet h ''Pre-deployment'' (rolling_Pre r) indent = Some (a, oa)"
        and "printHookIfSet h ''Post-deployment'' (rolling_Post r) indent = Some (b, ob)"
      using printHookIfSet_returns by metis
    then show ?thesis using Some by (simp add: printRollingParams_def)
  qed
  then obtain ro' out3
    where o: "printRollingParams h (strategy_RollingParams strategy) indent = Some (ro', out3)"
    by blast
  show ?thesis using c r o by (simp add: printStrategy_def)
qed

lemma triggerLabels_returns:
  "list_all triggerReady triggers \<Longrightarrow> \<exists>labels'. triggerLabels h labels triggers = Some labels'"
proof (induction triggers arbitrary: labels)
  case Nil
  then show ?case by simp
next
  case (Cons t ts)
  then show ?case
    by (cases "trigger_Type t") (auto simp: triggerReady_def split: prod.splits)
qed

lemma printTriggers_returns:
  "list_all triggerReady triggers \<Longrightarrow> \<exists>out. printTriggers h triggers = Some out"
  using triggerLabels_returns [of triggers h "[]"]
  by (auto simp: printTriggers_def)

lemma printAutoscalingInfo_returns:
  "autoscalerReady cl res namespace name \<Longrightarrow> \<exists>out. printAutoscalingInfo cl res namespace name = Some out"
  by (auto simp: autoscalerReady_def printAutoscalingInfo_def Let_def split: sum.splits list.splits)

lemma printDeploymentConfigSpec_returns:
  assumes "specReady h cl dc"
  shows "\<exists>dc' specText. printDeploymentConfigSpec h cl dc = Some (dc', specText)"
proof -
  obtain out3 where a: "printAutoscalingInfo cl (DeploymentConfigResource h) (om_Namespace (dc_ObjectMeta dc))
                          (om_Name (dc_ObjectMeta dc)) = Some out3"
    using assms printAutoscalingInfo_returns unfolding specReady_def by blast
  obtain out4 where t: "printTriggers h (spec_Triggers (dc_Spec dc)) = Some out4"
    using assms printTriggers_returns unfolding specReady_def by blast
  obtain strategy' out6 where s: "printStrategy h (spec_Strategy (dc_Spec dc)) ''  '' = Some (strategy', out6)"
    using assms printStrategy_returns by (metis specReady_def)
  show ?thesis using a t s by (simp add: printDeploymentConfigSpec_def Let_def)
qed

section \<open>The result of \<open>Describe\<close>\<close>

text \<open>
  \<open>Describe\<close> returns the error of the config fetch as it is; and once the spec block
  has been printed it returns the text of all sections and no error.
\<close>

lemma Describe_config_error:
  "config d = None \<Longrightarrow> DeploymentConfigs_Get cl namespace name = Inl e \<Longrightarrow>
   Describe h cl d namespace name settings = Some (d, [], Some e)"
  by (simp add: Describe_def)

lemma Describe_rendered:
  assumes "config d = Some dc \<or> (config d = None \<and> DeploymentConfigs_Get cl namespace name = Inr dc)"
    and "printDeploymentConfigSpec h cl dc = Some (dc', specText)"
    and "eventsSection h cl settings dc' = Some eventsText"
  shows "Describe h cl d namespace name settings =
           Some (d\<lparr>config := (case config d of None \<Rightarrow> None | Some c \<Rightarrow> Some dc')\<rparr>,
                 tabbedString h
                   (formatMeta h (dc_ObjectMeta dc) @ versionLine h dc @ specText @ [NL] @ warningLine dc'
                    @ latestSection h cl namespace (LatestDeploymentNameForConfig h dc')
                    @ historySection h cl d namespace (LatestDeploymentNameForConfig h dc') dc'
                    @ eventsText),
                 None)"
  using assms by (auto simp: Describe_def describeBody_def Let_def)

lemma Describe_returns:
  assumes "config d = Some dc \<or> (config d = None \<and> DeploymentConfigs_Get cl namespace name = Inr dc)"
    and "specReady h cl dc"
  shows "\<exists>d' out. Describe h cl d namespace name settings = Some (d', out, None)"
proof -
  obtain dc' specText where s: "printDeploymentConfigSpec h cl dc = Some (dc', specText)"
    using printDeploymentConfigSpec_returns [OF assms(2)] by blast
  obtain eventsText where e: "eventsSection h cl settings dc' = Some eventsText"
    using eventsSection_total by blast
  show ?thesis using Describe_rendered [OF assms(1) s e] by simp
qed

text \<open>
  C3 (the version line). For a config whose spec block can be printed, \<open>Describe\<close>
  returns no error and a text that starts with the metadata followed by the line labelled
  \<open>Latest Version\<close>. Its value is \<open>Not deployed\<close> when \<open>Status.LatestVersion\<close> is 0,
  whatever the clients answer about deployments, and otherwise the version as
  \<open>strconv.FormatInt\<close> prints it: a minus sign if it is negative, then decimal digits
  whose value is its magnitude.
\<close>

theorem version_line_not_deployed_or_decimal:
  assumes "config d = Some dc \<or> (config d = None \<and> DeploymentConfigs_Get cl namespace name = Inr dc)"
    and "specReady h cl dc"
  shows "(\<exists>d' rest. Describe h cl d namespace name settings
            = Some (d',
                    tabbedString h
                      (formatMeta h (dc_ObjectMeta dc)
                       @ formatString h ''Latest Version''
                           (if status_LatestVersion (dc_Status dc) = 0 then ''Not deployed''
                            else FormatInt (status_LatestVersion (dc_Status dc)))
                       @ rest),
                    None))
         \<and> FormatInt (status_LatestVersion (dc_Status dc))
             = (if status_LatestVersion (dc_Status dc) < 0 then [CHR ''-''] else [])
               @ dec_nat (nat \<bar>status_LatestVersion (dc_Status dc)\<bar>)
         \<and> list_all is_digit (dec_nat (nat \<bar>status_LatestVersion (dc_Status dc)\<bar>))
         \<and> int (dec_value (dec_nat (nat \<bar>status_LatestVersion (dc_Status dc)\<bar>)))
             = \<bar>status_LatestVersion (dc_Status dc)\<bar>"
proof -
  obtain dc' specText where s: "printDeploymentConfigSpec h cl dc = Some (dc', specText)"
    using printDeploymentConfigSpec_returns [OF assms(2)] by blast
  obtain eventsText where e: "eventsSection h cl settings dc' = Some eventsText"
    using eventsSection_total by blast
  have "\<exists>d' rest. Describe h cl d namespace name settings
            = Some (d',
                    tabbedString h
                      (formatMeta h (dc_ObjectMeta dc)
                       @ formatString h ''Latest Version''
                           (if status_LatestVersion (dc_Status dc) = 0 then ''Not deployed''
                            else FormatInt (status_LatestVersion (dc_Status dc)))
                       @ rest),
                    None)"
    using Describe_rendered [OF assms(1) s e] by (auto simp: versionLine_def)
  then show ?thesis
    using dec_nat_decimal [of "nat \<bar>status_LatestVersion (dc_Status dc)\<bar>"]
    by (simp add: FormatInt_decimal)
qed

text \<open>
  The config \<open>cfg\<close> at version 0 and at version 12, fetched through the client.
\<close>

theorem version_line_not_deployed_or_decimal_witness:
  "DeploymentConfigs_Get (example_clients [example_dc ''cfg'' 0 []] [] [] []) ''ns'' ''cfg''
     = Inr (example_dc ''cfg'' 0 [])
   \<and> specReady example_helpers (example_clients [example_dc ''cfg'' 0 []] [] [] []) (example_dc ''cfg'' 0 [])
   \<and> Describe example_helpers (example_clients [example_dc ''cfg'' 0 []] [] [] []) \<lparr>config = None\<rparr>
        ''ns'' ''cfg'' \<lparr>ShowEvents = False\<rparr>
     = Some (\<lparr>config = None\<rparr>, example_output ''Not deployed'' ''<none>'', None)
   \<and> (\<exists>rest. example_output ''Not deployed'' ''<none>''
        = ''Name:'' @ [TAB] @ ''cfg'' @ [NL] @ ''Latest Version:'' @ [TAB] @ ''Not deployed'' @ [NL] @ rest)
   \<and> DeploymentConfigs_Get (example_clients [example_dc ''cfg'' 12 []] [] [] []) ''ns'' ''cfg''
     = Inr (example_dc ''cfg'' 12 [])
   \<and> specReady example_helpers (example_clients [example_dc ''cfg'' 12 []] [] [] []) (example_dc ''cfg'' 12 [])
   \<and> Describe example_helpers (example_clients [example_dc ''cfg'' 12 []] [] [] []) \<lparr>config = None\<rparr>
        ''ns'' ''cfg'' \<lparr>ShowEvents = False\<rparr>
     = Some (\<lparr>config = None\<rparr>, example_output ''12'' ''<none>'', None)
   \<and> (\<exists>rest. example_output ''12'' ''<none>''
        = ''Name:'' @ [TAB] @ ''cfg'' @ [NL] @ ''Latest Version:'' @ [TAB] @ ''12'' @ [NL] @ rest)"
proof -
  let ?d = "\<lparr>config = None\<rparr>"
  let ?s = "\<lparr>ShowEvents = False\<rparr>"
  have g0: "config ?d = Some (example_dc ''cfg'' 0 [])
            \<or> (config ?d = None
                \<and> DeploymentConfigs_Get (example_clients [example_dc ''cfg'' 0 []] [] [] []) ''ns'' ''cfg''
                    = Inr (example_dc ''cfg'' 0 []))"
    by (simp add: example_clients_def example_dc_def)
  have w0: "specReady example_helpers (example_clients [example_dc ''cfg'' 0 []] [] [] []) (example_dc ''cfg'' 0 [])"
    by (simp add: ready_defs example_defs)
  have r0: "Describe example_helpers (example_clients [example_dc ''cfg'' 0 []] [] [] []) ?d ''ns'' ''cfg'' ?s
              = Some (?d, example_output ''Not deployed'' ''<none>'', None)"
    by (simp add: describe_defs history_defs example_defs)
  have g12: "config ?d = Some (example_dc ''cfg'' 12 [])
            \<or> (config ?d = None
                \<and> DeploymentConfigs_Get (example_clients [example_dc ''cfg'' 12 []] [] [] []) ''ns'' ''cfg''
                    = Inr (example_dc ''cfg'' 12 []))"
    by (simp add: example_clients_def example_dc_def)
  have w12: "specReady example_helpers (example_clients [example_dc ''cfg'' 12 []] [] [] []) (example_dc ''cfg'' 12 [])"
    by (simp add: ready_defs example_defs)
  have r12: "Describe example_helpers (example_clients [example_dc ''cfg'' 12 []] [] [] []) ?d ''ns'' ''cfg'' ?s
              = Some (?d, example_output ''12'' ''<none>'', None)"
    by (simp add: describe_defs history_defs example_defs)
  have v0: "status_LatestVersion (dc_Status (example_dc ''cfg'' 0 [])) = 0"
    and v12: "status_LatestVersion (dc_Status (example_dc ''cfg'' 12 [])) = 12"
    and m: "formatMeta example_helpers (dc_ObjectMeta (example_dc ''cfg'' v [])) = ''Name:'' @ [TAB] @ ''cfg'' @ [NL]"
    and f: "formatString example_helpers ''Latest Version'' x = ''Latest Version:'' @ [TAB] @ x @ [NL]"
    and t: "tabbedString example_helpers y = y"
    and f12: "FormatInt 12 = ''12''"
    for v x y
    by (simp_all add: example_defs FormatInt_def dec_nat_small dec_nat_large digit_char_def)
  have e0: "\<exists>rest. example_output ''Not deployed'' ''<none>''
        = ''Name:'' @ [TAB] @ ''cfg'' @ [NL] @ ''Latest Version:'' @ [TAB] @ ''Not deployed'' @ [NL] @ rest"
    using version_line_not_deployed_or_decimal [OF g0 w0, of ?s, THEN conjunct1]
    unfolding v0 m f t r0 by auto
  have e12: "\<exists>rest. example_output ''12'' ''<none>''
        = ''Name:'' @ [TAB] @ ''cfg'' @ [NL] @ ''Latest Version:'' @ [TAB] @ ''12'' @ [NL] @ rest"
    using version_line_not_deployed_or_decimal [OF g12 w12, of ?s, THEN conjunct1]
    unfolding v12 m f t f12 r12 by auto
  show ?thesis
    using g0 g12 w0 w12 r0 r12 e0 e12 by simp
qed

text \<open>
  C4 (failures of the two fetches). When the describer holds no config and the fetch of
  the config fails, \<open>Describe\<close> returns that error with the empty text. When the config is
  there, its spec block has been printed, and the fetch of the latest deployment fails,
  \<open>Describe\<close> still returns the whole text and no error; in it the latest deployment is
  the line labelled \<open>Latest Deployment\<close> with the value \<open><none>\<close> if the error is
  not-found and \<open>error: \<close> followed by the error's message otherwise, and the history
  and the events follow it.
\<close>

theorem latest_deployment_fetch_failures:
  "(config d = None \<and> DeploymentConfigs_Get cl namespace name = Inl e
      \<longrightarrow> Describe h cl d namespace name settings = Some (d, [], Some e))
   \<and> ((config d = Some dc \<or> (config d = None \<and> DeploymentConfigs_Get cl namespace name = Inr dc))
       \<and> printDeploymentConfigSpec h cl dc = Some (dc', specText)
       \<and> ReplicationControllers_Get cl namespace (LatestDeploymentNameForConfig h dc') = Inl e
      \<longrightarrow> (\<exists>eventsText.
             eventsSection h cl settings dc' = Some eventsText
             \<and> Describe h cl d namespace name settings =
                 Some (d\<lparr>config := (case config d of None \<Rightarrow> None | Some c \<Rightarrow> Some dc')\<rparr>,
                       tabbedString h
                         (formatMeta h (dc_ObjectMeta dc) @ versionLine h dc @ specText @ [NL]
                          @ warningLine dc'
                          @ formatString h ''Latest Deployment''
                              (if IsNotFound e then ''<none>'' else ''error: '' @ Error h e)
                          @ historySection h cl d namespace (LatestDeploymentNameForConfig h dc') dc'
                          @ eventsText),
                       None)))"
proof (intro conjI impI)
  assume "config d = None \<and> DeploymentConfigs_Get cl namespace name = Inl e"
  then show "Describe h cl d namespace name settings = Some (d, [], Some e)"
    by (simp add: Describe_config_error)
next
  assume a: "(config d = Some dc \<or> (config d = None \<and> DeploymentConfigs_Get cl namespace name = Inr dc))
       \<and> printDeploymentConfigSpec h cl dc = Some (dc', specText)
       \<and> ReplicationControllers_Get cl namespace (LatestDeploymentNameForConfig h dc') = Inl e"
  obtain eventsText where ev: "eventsSection h cl settings dc' = Some eventsText"
    using eventsSection_total by blast
  have "latestSection h cl namespace (LatestDeploymentNameForConfig h dc')
          = formatString h ''Latest Deployment''
              (if IsNotFound e then ''<none>'' else ''error: '' @ Error h e)"
    using a by (simp add: latestSection_def)
  then show "\<exists>eventsText.
             eventsSection h cl settings dc' = Some eventsText
             \<and> Describe h cl d namespace name settings =
                 Some (d\<lparr>config := (case config d of None \<Rightarrow> None | Some c \<Rightarrow> Some dc')\<rparr>,
                       tabbedString h
                         (formatMeta h (dc_ObjectMeta dc) @ versionLine h dc @ specText @ [NL]
                          @ warningLine dc'
                          @ formatString h ''Latest Deployment''
                              (if IsNotFound e then ''<none>'' else ''error: '' @ Error h e)
                          @ historySection h cl d namespace (LatestDeploymentNameForConfig h dc') dc'
                          @ eventsText),
                       None)"
    using Describe_rendered [of d dc cl namespace name h dc' specText settings eventsText] a ev
    by simp
qed

text \<open>
  The three cases: no config \<open>cfg\<close> in the store; the config at version 0 with no
  deployment \<open>cfg-0\<close>; the same with a client whose fetch of deployments times out.
\<close>

theorem latest_deployment_fetch_failures_witness:
  "DeploymentConfigs_Get (example_clients [] [] [] []) ''ns'' ''cfg'' = Inl (NotFoundError ''cfg'')
   \<and> Describe example_helpers (example_clients [] [] [] []) \<lparr>config = None\<rparr> ''ns'' ''cfg''
        \<lparr>ShowEvents = False\<rparr>
      = Some (\<lparr>config = None\<rparr>, [], Some (NotFoundError ''cfg''))
   \<and> ReplicationControllers_Get (example_clients [example_dc ''cfg'' 0 []] [] [] []) ''ns'' ''cfg-0''
      = Inl (NotFoundError ''cfg-0'')
   \<and> Describe example_helpers (example_clients [example_dc ''cfg'' 0 []] [] [] []) \<lparr>config = None\<rparr>
        ''ns'' ''cfg'' \<lparr>ShowEvents = False\<rparr>
      = Some (\<lparr>config = None\<rparr>, example_output ''Not deployed'' ''<none>'', None)
   \<and> ReplicationControllers_Get
        ((example_clients [example_dc ''cfg'' 0 []] [] [] [])
           \<lparr>ReplicationControllers_Get := \<lambda>namespace name. Inl (GenericError ''timeout'')\<rparr>)
        ''ns'' ''cfg-0''
      = Inl (GenericError ''timeout'')
   \<and> Describe example_helpers
        ((example_clients [example_dc ''cfg'' 0 []] [] [] [])
           \<lparr>ReplicationControllers_Get := \<lambda>namespace name. Inl (GenericError ''timeout'')\<rparr>)
        \<lparr>config = None\<rparr> ''ns'' ''cfg'' \<lparr>ShowEvents = False\<rparr>
      = Some (\<lparr>config = None\<rparr>, example_output ''Not deployed'' ''error: timeout'', None)"
proof -
  let ?d = "\<lparr>config = None\<rparr>"
  let ?s = "\<lparr>ShowEvents = False\<rparr>"
  let ?dc = "example_dc ''cfg'' 0 []"
  let ?cl = "example_clients [?dc] [] [] []"
  let ?cl' = "?cl\<lparr>ReplicationControllers_Get := \<lambda>namespace name. Inl (GenericError ''timeout'')\<rparr>"
  let ?spec = "''Selector:'' @ [TAB] @ [NL] @ ''Replicas:'' @ [TAB] @ ''1'' @ [NL]
     @ ''Triggers:'' @ [TAB] @ ''<none>'' @ [NL] @ ''Strategy:'' @ [TAB] @ ''Custom'' @ [NL]
     @ ''  Image:'' @ [TAB] @ ''<default>'' @ [NL] @ ''Template:'' @ [NL]"
  have a1: "config ?d = None \<and> DeploymentConfigs_Get (example_clients [] [] [] []) ''ns'' ''cfg''
             = Inl (NotFoundError ''cfg'')"
    by (simp add: example_clients_def)
  have name: "LatestDeploymentNameForConfig example_helpers ?dc = ''cfg-0''"
    by (simp add: example_defs FormatInt_def dec_nat_small digit_char_def)
  have a2: "(config ?d = Some ?dc \<or> (config ?d = None \<and> DeploymentConfigs_Get ?cl ''ns'' ''cfg'' = Inr ?dc))
       \<and> printDeploymentConfigSpec example_helpers ?cl ?dc = Some (?dc, ?spec)
       \<and> ReplicationControllers_Get ?cl ''ns'' (LatestDeploymentNameForConfig example_helpers ?dc)
           = Inl (NotFoundError ''cfg-0'')"
    unfolding name by (simp add: describe_defs example_defs)
  have a3: "(config ?d = Some ?dc \<or> (config ?d = None \<and> DeploymentConfigs_Get ?cl' ''ns'' ''cfg'' = Inr ?dc))
       \<and> printDeploymentConfigSpec example_helpers ?cl' ?dc = Some (?dc, ?spec)
       \<and> ReplicationControllers_Get ?cl' ''ns'' (LatestDeploymentNameForConfig example_helpers ?dc)
           = Inl (GenericError ''timeout'')"
    unfolding name by (simp add: describe_defs example_defs)
  have r1: "Describe example_helpers (example_clients [] [] [] []) ?d ''ns'' ''cfg'' ?s
              = Some (?d, [], Some (NotFoundError ''cfg''))"
    using latest_deployment_fetch_failures
      [of ?d "example_clients [] [] [] []" "''ns''" "''cfg''" "NotFoundError ''cfg''" example_helpers ?s,
       THEN conjunct1] a1
    by blast
  have r2: "Describe example_helpers ?cl ?d ''ns'' ''cfg'' ?s
              = Some (?d, example_output ''Not deployed'' ''<none>'', None)"
    using latest_deployment_fetch_failures
      [of ?d ?cl "''ns''" "''cfg''" "NotFoundError ''cfg-0''" example_helpers ?s ?dc ?dc ?spec,
       THEN conjunct2] a2
    by (auto simp: name describe_defs history_defs example_defs)
  have r3: "Describe example_helpers ?cl' ?d ''ns'' ''cfg'' ?s
              = Some (?d, example_output ''Not deployed'' ''error: timeout'', None)"
    using latest_deployment_fetch_failures
      [of ?d ?cl' "''ns''" "''cfg''" "GenericError ''timeout''" example_helpers ?s ?dc ?dc ?spec,
       THEN conjunct2] a3
    by (auto simp: name describe_defs history_defs example_defs)
  show ?thesis
    using a1 a2 a3 r1 r2 r3 by (simp add: name)
qed

section \<open>The autoscaling line\<close>

text \<open>
  C6 (several autoscalers bound to one config). When listing the autoscalers fails,
  nothing is printed and nothing fails. When the list holds an autoscaler that targets
  the config (name and kind) and none before it does, then, its \<open>MinReplicas\<close> being
  set, exactly one line is printed, for this autoscaler: \<open>between MIN and MAX replicas\<close>,
  with the clause \<open>, triggered at N% CPU usage\<close> when it has a CPU target. The
  autoscalers after it, matching or not, change nothing.
\<close>

theorem autoscaling_first_binding_only:
  "(HorizontalPodAutoscalers_List cl namespace = Inl e
      \<longrightarrow> printAutoscalingInfo cl res namespace name = Some [])
   \<and> (HorizontalPodAutoscalers_List cl namespace = Inr (before @ hpa # after)
       \<and> (\<forall>x\<in>set before. \<not> (hpa_ScaleRef_Name x = name \<and> hpa_ScaleRef_Kind x = res))
       \<and> hpa_ScaleRef_Name hpa = name \<and> hpa_ScaleRef_Kind hpa = res
       \<and> hpa_MinReplicas hpa = Some minReplicas
      \<longrightarrow> printAutoscalingInfo cl res namespace name
            = Some (''Autoscaling:'' @ [TAB] @ ''between '' @ FormatInt minReplicas @ '' and ''
                    @ FormatInt (hpa_MaxReplicas hpa) @ '' replicas''
                    @ (case hpa_CPUUtilization_TargetPercentage hpa of
                         None \<Rightarrow> []
                       | Some pct \<Rightarrow> '', triggered at '' @ FormatInt pct @ ''% CPU usage'')
                    @ [NL])
          \<and> length (filter (\<lambda>c. c = NL)
               (''Autoscaling:'' @ [TAB] @ ''between '' @ FormatInt minReplicas @ '' and ''
                    @ FormatInt (hpa_MaxReplicas hpa) @ '' replicas''
                    @ (case hpa_CPUUtilization_TargetPercentage hpa of
                         None \<Rightarrow> []
                       | Some pct \<Rightarrow> '', triggered at '' @ FormatInt pct @ ''% CPU usage'')
                    @ [NL])) = 1)"
proof (intro conjI impI)
  assume "HorizontalPodAutoscalers_List cl namespace = Inl e"
  then show "printAutoscalingInfo cl res namespace name = Some []"
    by (simp add: printAutoscalingInfo_def)
next
  assume a: "HorizontalPodAutoscalers_List cl namespace = Inr (before @ hpa # after)
       \<and> (\<forall>x\<in>set before. \<not> (hpa_ScaleRef_Name x = name \<and> hpa_ScaleRef_Kind x = res))
       \<and> hpa_ScaleRef_Name hpa = name \<and> hpa_ScaleRef_Kind hpa = res
       \<and> hpa_MinReplicas hpa = Some minReplicas"
  then have "filter (\<lambda>x. hpa_ScaleRef_Name x = name \<and> hpa_ScaleRef_Kind x = res) before = []"
    by (simp add: filter_empty_conv)
  then show "printAutoscalingInfo cl res namespace name
            = Some (''Autoscaling:'' @ [TAB] @ ''between '' @ FormatInt minReplicas @ '' and ''
                    @ FormatInt (hpa_MaxReplicas hpa) @ '' replicas''
                    @ (case hpa_CPUUtilization_TargetPercentage hpa of
                         None \<Rightarrow> []
                       | Some pct \<Rightarrow> '', triggered at '' @ FormatInt pct @ ''% CPU usage'')
                    @ [NL])"
    using a by (simp add: printAutoscalingInfo_def)
next
  have "filter (\<lambda>c. c = NL) (FormatInt i) = []" for i
    using NL_notin_FormatInt [of i] by (auto simp: filter_empty_conv)
  then show "length (filter (\<lambda>c. c = NL)
               (''Autoscaling:'' @ [TAB] @ ''between '' @ FormatInt minReplicas @ '' and ''
                    @ FormatInt (hpa_MaxReplicas hpa) @ '' replicas''
                    @ (case hpa_CPUUtilization_TargetPercentage hpa of
                         None \<Rightarrow> []
                       | Some pct \<Rightarrow> '', triggered at '' @ FormatInt pct @ ''% CPU usage'')
                    @ [NL])) = 1"
    by (simp split: option.splits)
qed

text \<open>
  A failing list; and a list of an autoscaler of another config followed by two
  autoscalers of \<open>cfg\<close>, of which the first is printed.
\<close>

theorem autoscaling_first_binding_only_witness:
  "HorizontalPodAutoscalers_List
      ((example_clients [] [] [] [])\<lparr>HorizontalPodAutoscalers_List := \<lambda>namespace. Inl (GenericError ''timeout'')\<rparr>)
      ''ns'' = Inl (GenericError ''timeout'')
   \<and> printAutoscalingInfo
        ((example_clients [] [] [] [])\<lparr>HorizontalPodAutoscalers_List := \<lambda>namespace. Inl (GenericError ''timeout'')\<rparr>)
        ''DeploymentConfig'' ''ns'' ''cfg'' = Some []
   \<and> HorizontalPodAutoscalers_List
        (example_clients [] []
           [example_hpa ''other'' (Some 3) 4 None, example_hpa ''cfg'' (Some 1) 5 (Some 80),
            example_hpa ''cfg'' (Some 2) 10 None] []) ''ns''
      = Inr ([example_hpa ''other'' (Some 3) 4 None] @ example_hpa ''cfg'' (Some 1) 5 (Some 80)
             # [example_hpa ''cfg'' (Some 2) 10 None])
   \<and> hpa_ScaleRef_Name (example_hpa ''other'' (Some 3) 4 None) \<noteq> ''cfg''
   \<and> hpa_ScaleRef_Name (example_hpa ''cfg'' (Some 1) 5 (Some 80)) = ''cfg''
   \<and> hpa_ScaleRef_Kind (example_hpa ''cfg'' (Some 1) 5 (Some 80)) = ''DeploymentConfig''
   \<and> hpa_ScaleRef_Name (example_hpa ''cfg'' (Some 2) 10 None) = ''cfg''
   \<and> hpa_ScaleRef_Kind (example_hpa ''cfg'' (Some 2) 10 None) = ''DeploymentConfig''
   \<and> hpa_MinReplicas (example_hpa ''cfg'' (Some 1) 5 (Some 80)) = Some 1
   \<and> printAutoscalingInfo
        (example_clients [] []
           [example_hpa ''other'' (Some 3) 4 None, example_hpa ''cfg'' (Some 1) 5 (Some 80),
            example_hpa ''cfg'' (Some 2) 10 None] [])
        ''DeploymentConfig'' ''ns'' ''cfg''
      = Some (''Autoscaling:'' @ [TAB] @ ''between 1 and 5 replicas, triggered at 80% CPU usage'' @ [NL])"
proof -
  let ?cle = "(example_clients [] [] [] [])\<lparr>HorizontalPodAutoscalers_List := \<lambda>namespace. Inl (GenericError ''timeout'')\<rparr>"
  let ?h0 = "example_hpa ''other'' (Some 3) 4 None"
  let ?h1 = "example_hpa ''cfg'' (Some 1) 5 (Some 80)"
  let ?h2 = "example_hpa ''cfg'' (Some 2) 10 None"
  let ?cl = "example_clients [] [] [?h0, ?h1, ?h2] []"
  have a1: "HorizontalPodAutoscalers_List ?cle ''ns'' = Inl (GenericError ''timeout'')"
    by (simp add: example_clients_def)
  have a2: "HorizontalPodAutoscalers_List ?cl ''ns'' = Inr ([?h0] @ ?h1 # [?h2])
       \<and> (\<forall>x\<in>set [?h0]. \<not> (hpa_ScaleRef_Name x = ''cfg'' \<and> hpa_ScaleRef_Kind x = ''DeploymentConfig''))
       \<and> hpa_ScaleRef_Name ?h1 = ''cfg'' \<and> hpa_ScaleRef_Kind ?h1 = ''DeploymentConfig''
       \<and> hpa_MinReplicas ?h1 = Some 1"
    by (simp add: example_clients_def example_hpa_def)
  have r1: "printAutoscalingInfo ?cle ''DeploymentConfig'' ''ns'' ''cfg'' = Some []"
    using autoscaling_first_binding_only
      [of ?cle "''ns''" "GenericError ''timeout''" "''DeploymentConfig''" "''cfg''", THEN conjunct1] a1
    by blast
  have r2: "printAutoscalingInfo ?cl ''DeploymentConfig'' ''ns'' ''cfg''
      = Some (''Autoscaling:'' @ [TAB] @ ''between 1 and 5 replicas, triggered at 80% CPU usage'' @ [NL])"
    using autoscaling_first_binding_only
      [of ?cl "''ns''" _ "''DeploymentConfig''" "''cfg''" "[?h0]" ?h1 "[?h2]" 1, THEN conjunct2] a2
    by (simp add: example_hpa_def FormatInt_def dec_nat_small dec_nat_large digit_char_def)
  show ?thesis
    using a1 a2 r1 r2 by (simp add: example_hpa_def)
qed

section \<open>The trigger summary\<close>





section \<open>Describing the same config twice\<close>

text \<open>
  C8 (rendering twice gives the same text). \<open>multilineStringArray\<close> stores the
  reflowed tokens into the command of the config it prints, so a describer built with a
  config whose custom command holds a token with a newline inside prints another
  \<open>Command\<close> line the second time: the token, already reflowed, is reflowed again.
  The clients answer the same both times.
\<close>

theorem describe_twice_differs:
  "multilineStringArray '' '' [TAB, CHR '' '', CHR '' ''] [token_a_b] = Some ([token_once], token_once)
   \<and> multilineStringArray '' '' [TAB, CHR '' '', CHR '' ''] [token_once] = Some ([token_twice], token_twice)
   \<and> Describe example_helpers (example_clients [] [] [] []) \<lparr>config = Some (example_dc ''cfg'' 0 [token_a_b])\<rparr>
        ''ns'' ''cfg'' \<lparr>ShowEvents = False\<rparr>
      = Some (\<lparr>config = Some (example_dc ''cfg'' 0 [token_once])\<rparr>,
              example_output_with ''Not deployed'' (''  Command:'' @ [TAB] @ token_once @ [NL]) ''<none>'',
              None)
   \<and> Describe example_helpers (example_clients [] [] [] []) \<lparr>config = Some (example_dc ''cfg'' 0 [token_once])\<rparr>
        ''ns'' ''cfg'' \<lparr>ShowEvents = False\<rparr>
      = Some (\<lparr>config = Some (example_dc ''cfg'' 0 [token_twice])\<rparr>,
              example_output_with ''Not deployed'' (''  Command:'' @ [TAB] @ token_twice @ [NL]) ''<none>'',
              None)
   \<and> example_output_with ''Not deployed'' (''  Command:'' @ [TAB] @ token_once @ [NL]) ''<none>''
      \<noteq> example_output_with ''Not deployed'' (''  Command:'' @ [TAB] @ token_twice @ [NL]) ''<none>''"
  by (simp add: describe_defs history_defs example_defs token_a_b_def token_once_def token_twice_def)

section \<open>\<open>REST.Get\<close> of the user registry\<close>

lemma sets_List_groups:
  "set (sets_List (sets_Delete (sets_NewString groups) [ua, a])) = set groups - {ua, a}
   \<and> sorted (sets_List (sets_Delete (sets_NewString groups) [ua, a]))
   \<and> distinct (sets_List (sets_Delete (sets_NewString groups) [ua, a]))"
  by (simp add: sets_List_def sets_Delete_def sets_NewString_def)

lemma REST_Get_unauthenticated:
  "ctx_User ctx = None \<or> (\<exists>u. ctx_User ctx = Some u \<and> info_Name u = []) \<Longrightarrow>
   REST_Get r ctx ''~''
     = ((None, Some (ForbiddenError ''user'' ''~'' ''requests to ~ must be authenticated'')), [])"
  by (auto simp: REST_Get_def)

lemma REST_Get_virtual_invalid:
  "ctx_User ctx = Some u \<Longrightarrow> info_Name u \<noteq> [] \<Longrightarrow> \<not> fst (ValidateUserName r (info_Name u) False) \<Longrightarrow>
   REST_Get r ctx ''~''
     = ((Some (virtualUser (info_Name u)
                 (sets_List (sets_Delete (sets_NewString (info_Groups u))
                               [UnauthenticatedGroup r, AuthenticatedGroup r]))), None), [])"
  by (simp add: REST_Get_def Let_def)

lemma REST_Get_store_error:
  "ctx_User ctx = Some u \<Longrightarrow> info_Name u \<noteq> [] \<Longrightarrow> fst (ValidateUserName r (info_Name u) False) \<Longrightarrow>
   Store_Get r ctx (info_Name u) = Inl e \<Longrightarrow>
   REST_Get r ctx ''~''
     = (if IsNotFound e
        then ((Some (virtualUser (info_Name u)
                 (sets_List (sets_Delete (sets_NewString (info_Groups u))
                               [UnauthenticatedGroup r, AuthenticatedGroup r]))), None), [info_Name u])
        else ((None, Some e), [info_Name u]))"
  by (simp add: REST_Get_def Let_def)

lemma REST_Get_invalid_name:
  "name \<noteq> ''~'' \<Longrightarrow> ValidateUserName r name False = (False, details) \<Longrightarrow>
   REST_Get r ctx name = ((None, Some (InvalidFieldError ''metadata.name'' name details)), [])"
  by (simp add: REST_Get_def)

text \<open>
  C10 (\<open>Get\<close> of the user registry). For the name \<open>~\<close>: without a user in the
  context, or with a user of empty name, \<open>Get\<close> returns a Forbidden error and does not
  ask the store; with a user whose name fails the validation it returns, without asking
  the store and with no error, the virtual user of that name; with a valid name for which
  the store answers not-found it returns the same virtual user and no error; any other
  error of the store is returned. The virtual user bears the name of the context's user
  and, as groups, the context's groups without the two virtual groups. For another name
  that fails the validation, \<open>Get\<close> returns an invalid-field error on
  \<open>metadata.name\<close> and does not ask the store.
\<close>

theorem REST_Get_current_user:
  "(ctx_User ctx = None \<or> (\<exists>u. ctx_User ctx = Some u \<and> info_Name u = [])
      \<longrightarrow> REST_Get r ctx ''~''
            = ((None, Some (ForbiddenError ''user'' ''~'' ''requests to ~ must be authenticated'')), []))
   \<and> (ctx_User ctx = Some u \<and> info_Name u \<noteq> [] \<and> \<not> fst (ValidateUserName r (info_Name u) False)
      \<longrightarrow> REST_Get r ctx ''~''
            = ((Some (virtualUser (info_Name u)
                        (sets_List (sets_Delete (sets_NewString (info_Groups u))
                                      [UnauthenticatedGroup r, AuthenticatedGroup r]))), None), []))
   \<and> (ctx_User ctx = Some u \<and> info_Name u \<noteq> [] \<and> fst (ValidateUserName r (info_Name u) False)
       \<and> Store_Get r ctx (info_Name u) = Inl e \<and> IsNotFound e
      \<longrightarrow> REST_Get r ctx ''~''
            = ((Some (virtualUser (info_Name u)
                        (sets_List (sets_Delete (sets_NewString (info_Groups u))
                                      [UnauthenticatedGroup r, AuthenticatedGroup r]))), None),
               [info_Name u]))
   \<and> (ctx_User ctx = Some u \<and> info_Name u \<noteq> [] \<and> fst (ValidateUserName r (info_Name u) False)
       \<and> Store_Get r ctx (info_Name u) = Inl e \<and> \<not> IsNotFound e
      \<longrightarrow> REST_Get r ctx ''~'' = ((None, Some e), [info_Name u]))
   \<and> (name \<noteq> ''~'' \<and> ValidateUserName r name False = (False, details)
      \<longrightarrow> REST_Get r ctx name = ((None, Some (InvalidFieldError ''metadata.name'' name details)), []))
   \<and> user_Name (virtualUser (info_Name u)
                   (sets_List (sets_Delete (sets_NewString (info_Groups u))
                                 [UnauthenticatedGroup r, AuthenticatedGroup r]))) = info_Name u
   \<and> set (user_Groups (virtualUser (info_Name u)
                   (sets_List (sets_Delete (sets_NewString (info_Groups u))
                                 [UnauthenticatedGroup r, AuthenticatedGroup r]))))
      = set (info_Groups u) - {UnauthenticatedGroup r, AuthenticatedGroup r}"
proof (intro conjI impI)
  assume "ctx_User ctx = None \<or> (\<exists>u. ctx_User ctx = Some u \<and> info_Name u = [])"
  then show "REST_Get r ctx ''~''
            = ((None, Some (ForbiddenError ''user'' ''~'' ''requests to ~ must be authenticated'')), [])"
    by (rule REST_Get_unauthenticated)
next
  assume "ctx_User ctx = Some u \<and> info_Name u \<noteq> [] \<and> \<not> fst (ValidateUserName r (info_Name u) False)"
  then show "REST_Get r ctx ''~''
            = ((Some (virtualUser (info_Name u)
                        (sets_List (sets_Delete (sets_NewString (info_Groups u))
                                      [UnauthenticatedGroup r, AuthenticatedGroup r]))), None), [])"
    by (simp add: REST_Get_virtual_invalid)
next
  assume "ctx_User ctx = Some u \<and> info_Name u \<noteq> [] \<and> fst (ValidateUserName r (info_Name u) False)
       \<and> Store_Get r ctx (info_Name u) = Inl e \<and> IsNotFound e"
  then show "REST_Get r ctx ''~''
            = ((Some (virtualUser (info_Name u)
                        (sets_List (sets_Delete (sets_NewString (info_Groups u))
                                      [UnauthenticatedGroup r, AuthenticatedGroup r]))), None),
               [info_Name u])"
    by (simp add: REST_Get_store_error)
next
  assume "ctx_User ctx = Some u \<and> info_Name u \<noteq> [] \<and> fst (ValidateUserName r (info_Name u) False)
       \<and> Store_Get r ctx (info_Name u) = Inl e \<and> \<not> IsNotFound e"
  then show "REST_Get r ctx ''~'' = ((None, Some e), [info_Name u])"
    by (simp add: REST_Get_store_error)
next
  assume "name \<noteq> ''~'' \<and> ValidateUserName r name False = (False, details)"
  then show "REST_Get r ctx name = ((None, Some (InvalidFieldError ''metadata.name'' name details)), [])"
    by (simp add: REST_Get_invalid_name)
next
  show "user_Name (virtualUser (info_Name u)
                   (sets_List (sets_Delete (sets_NewString (info_Groups u))
                                 [UnauthenticatedGroup r, AuthenticatedGroup r]))) = info_Name u"
    by (simp add: virtualUser_def)
next
  show "set (user_Groups (virtualUser (info_Name u)
                   (sets_List (sets_Delete (sets_NewString (info_Groups u))
                                 [UnauthenticatedGroup r, AuthenticatedGroup r]))))
      = set (info_Groups u) - {UnauthenticatedGroup r, AuthenticatedGroup r}"
    using sets_List_groups [of "info_Groups u" "UnauthenticatedGroup r" "AuthenticatedGroup r"]
    by (simp add: virtualUser_def)
qed

lemma example_groups:
  "sets_List (sets_Delete (sets_NewString [''system:authenticated'', ''dev'', ''admins'', ''dev''])
                [''system:unauthenticated'', ''system:authenticated''])
   = [''admins'', ''dev'']"
  unfolding sets_List_def sets_Delete_def sets_NewString_def by code_simp

theorem REST_Get_current_user_witness:
  "REST_Get (example_registry example_store) \<lparr>ctx_User = None\<rparr> ''~''
     = ((None, Some (ForbiddenError ''user'' ''~'' ''requests to ~ must be authenticated'')), [])
   \<and> \<not> fst (ValidateUserName (example_registry example_store) ''system:admin'' False)
   \<and> REST_Get (example_registry example_store)
        \<lparr>ctx_User = Some \<lparr>info_Name = ''system:admin'',
                           info_Groups = [''system:authenticated'', ''dev'', ''admins'', ''dev'']\<rparr>\<rparr> ''~''
     = ((Some \<lparr>user_Name = ''system:admin'', user_FullName = [], user_Identities = [],
               user_Groups = [''admins'', ''dev'']\<rparr>, None), [])
   \<and> fst (ValidateUserName (example_registry example_store) ''bob'' False)
   \<and> Store_Get (example_registry example_store)
        \<lparr>ctx_User = Some \<lparr>info_Name = ''bob'',
                           info_Groups = [''system:authenticated'', ''dev'', ''admins'', ''dev'']\<rparr>\<rparr> ''bob''
     = Inl (NotFoundError ''bob'')
   \<and> REST_Get (example_registry example_store)
        \<lparr>ctx_User = Some \<lparr>info_Name = ''bob'',
                           info_Groups = [''system:authenticated'', ''dev'', ''admins'', ''dev'']\<rparr>\<rparr> ''~''
     = ((Some \<lparr>user_Name = ''bob'', user_FullName = [], user_Identities = [],
               user_Groups = [''admins'', ''dev'']\<rparr>, None), [''bob''])
   \<and> fst (ValidateUserName (example_registry example_store) ''down'' False)
   \<and> Store_Get (example_registry example_store)
        \<lparr>ctx_User = Some \<lparr>info_Name = ''down'', info_Groups = []\<rparr>\<rparr> ''down''
     = Inl (GenericError ''etcd unavailable'')
   \<and> REST_Get (example_registry example_store)
        \<lparr>ctx_User = Some \<lparr>info_Name = ''down'', info_Groups = []\<rparr>\<rparr> ''~''
     = ((None, Some (GenericError ''etcd unavailable'')), [''down''])
   \<and> ValidateUserName (example_registry example_store) ''a:b'' False = (False, ''may not contain a colon'')
   \<and> REST_Get (example_registry example_store) \<lparr>ctx_User = None\<rparr> ''a:b''
     = ((None, Some (InvalidFieldError ''metadata.name'' ''a:b'' ''may not contain a colon'')), [])"
proof -
  let ?r = "example_registry example_store"
  let ?g = "[''system:authenticated'', ''dev'', ''admins'', ''dev'']"
  let ?admin = "\<lparr>info_Name = ''system:admin'', info_Groups = ?g\<rparr>"
  let ?bob = "\<lparr>info_Name = ''bob'', info_Groups = ?g\<rparr>"
  let ?down = "\<lparr>info_Name = ''down'', info_Groups = []\<rparr>"
  have g: "sets_List (sets_Delete (sets_NewString ?g) [UnauthenticatedGroup ?r, AuthenticatedGroup ?r])
             = [''admins'', ''dev'']"
    using example_groups by (simp add: example_registry_def)
  have a1: "ctx_User \<lparr>ctx_User = None\<rparr> = None
            \<or> (\<exists>u. ctx_User \<lparr>ctx_User = None\<rparr> = Some u \<and> info_Name u = [])"
    by simp
  have a2: "ctx_User \<lparr>ctx_User = Some ?admin\<rparr> = Some ?admin \<and> info_Name ?admin \<noteq> []
            \<and> \<not> fst (ValidateUserName ?r (info_Name ?admin) False)"
    by (simp add: example_registry_def)
  have a3: "ctx_User \<lparr>ctx_User = Some ?bob\<rparr> = Some ?bob \<and> info_Name ?bob \<noteq> []
            \<and> fst (ValidateUserName ?r (info_Name ?bob) False)
            \<and> Store_Get ?r \<lparr>ctx_User = Some ?bob\<rparr> (info_Name ?bob) = Inl (NotFoundError ''bob'')
            \<and> IsNotFound (NotFoundError ''bob'')"
    by (simp add: example_registry_def example_store_def IsNotFound_def)
  have a4: "ctx_User \<lparr>ctx_User = Some ?down\<rparr> = Some ?down \<and> info_Name ?down \<noteq> []
            \<and> fst (ValidateUserName ?r (info_Name ?down) False)
            \<and> Store_Get ?r \<lparr>ctx_User = Some ?down\<rparr> (info_Name ?down) = Inl (GenericError ''etcd unavailable'')
            \<and> \<not> IsNotFound (GenericError ''etcd unavailable'')"
    by (simp add: example_registry_def example_store_def IsNotFound_def)
  have a5: "''a:b'' \<noteq> ''~'' \<and> ValidateUserName ?r ''a:b'' False = (False, ''may not contain a colon'')"
    by (simp add: example_registry_def)
  note t = REST_Get_current_user
  have r1: "REST_Get ?r \<lparr>ctx_User = None\<rparr> ''~''
     = ((None, Some (ForbiddenError ''user'' ''~'' ''requests to ~ must be authenticated'')), [])"
    using t [of "\<lparr>ctx_User = None\<rparr>" ?r, THEN conjunct1] a1 by blast
  have r2: "REST_Get ?r \<lparr>ctx_User = Some ?admin\<rparr> ''~''
     = ((Some (virtualUser ''system:admin'' [''admins'', ''dev'']), None), [])"
    using t [of "\<lparr>ctx_User = Some ?admin\<rparr>" ?r ?admin, THEN conjunct2, THEN conjunct1] a2
    by (simp add: g)
  have r3: "REST_Get ?r \<lparr>ctx_User = Some ?bob\<rparr> ''~''
     = ((Some (virtualUser ''bob'' [''admins'', ''dev'']), None), [''bob''])"
    using t [of "\<lparr>ctx_User = Some ?bob\<rparr>" ?r ?bob "NotFoundError ''bob''",
             THEN conjunct2, THEN conjunct2, THEN conjunct1] a3
    by (simp add: g)
  have r4: "REST_Get ?r \<lparr>ctx_User = Some ?down\<rparr> ''~''
     = ((None, Some (GenericError ''etcd unavailable'')), [''down''])"
    using t [of "\<lparr>ctx_User = Some ?down\<rparr>" ?r ?down "GenericError ''etcd unavailable''",
             THEN conjunct2, THEN conjunct2, THEN conjunct2, THEN conjunct1] a4
    by simp
  have r5: "REST_Get ?r \<lparr>ctx_User = None\<rparr> ''a:b''
     = ((None, Some (InvalidFieldError ''metadata.name'' ''a:b'' ''may not contain a colon'')), [])"
    using t [of "\<lparr>ctx_User = None\<rparr>" ?r _ _ "''a:b''" "''may not contain a colon''",
             THEN conjunct2, THEN conjunct2, THEN conjunct2, THEN conjunct2, THEN conjunct1] a5
    by blast
  show ?thesis
    using a2 a3 a4 a5 r1 r2 r3 r4 r5 by (simp add: virtualUser_def)
qed

end
